theory Spec2Isabelle
  imports Complex_Main "HOL-Library.Word"
begin

unbundle bit_operations_syntax

section \<open>Floating point as an interface\<close>

text \<open>
  The generator computes with Python floats (IEEE doubles).  Their arithmetic is not
  modelled: a float is a value of a type parameter \<open>'f\<close>, and the operations the
  scripts use are the fields of a record that every function of the model takes as its
  first argument.  A theorem about the model therefore holds for every float semantics,
  the IEEE one included.
\<close>

record 'f float_ops =
  fl_lit :: "real \<Rightarrow> 'f"
  fl_of_int :: "int \<Rightarrow> 'f"
  fl_pi :: "'f"
  fl_neg :: "'f \<Rightarrow> 'f"
  fl_add :: "'f \<Rightarrow> 'f \<Rightarrow> 'f"
  fl_sub :: "'f \<Rightarrow> 'f \<Rightarrow> 'f"
  fl_mul :: "'f \<Rightarrow> 'f \<Rightarrow> 'f"
  fl_div :: "'f \<Rightarrow> 'f \<Rightarrow> 'f"
  fl_is_zero :: "'f \<Rightarrow> bool"
  fl_lt :: "'f \<Rightarrow> 'f \<Rightarrow> bool"
  fl_le :: "'f \<Rightarrow> 'f \<Rightarrow> bool"
  fl_sqrt :: "'f \<Rightarrow> 'f"
  fl_sin :: "'f \<Rightarrow> 'f"
  fl_cos :: "'f \<Rightarrow> 'f"
  fl_atan2 :: "'f \<Rightarrow> 'f \<Rightarrow> 'f"
  fl_pack32 :: "'f \<Rightarrow> 32 word option"

text \<open>
  \<open>fl_lit\<close> is a float literal of the source, \<open>fl_of_int\<close> the conversion of an int
  operand, \<open>fl_div\<close> the quotient for a divisor that is not zero (\<open>fl_is_zero\<close> tells
  when Python raises ZeroDivisionError instead), and \<open>fl_pack32\<close> the bit pattern
  \<open>struct.pack("<f", x)\<close> writes, \<open>None\<close> when it raises OverflowError.

  An instance over the reals, exact and without rounding, serves to run the model on
  concrete inputs.  Its \<open>fl_pack32\<close> refuses what does not round into the float32 range,
  as the interpreter does, and the bit pattern of what it accepts is not computed.
\<close>

definition exact_ops :: "real float_ops" where
  "exact_ops = \<lparr>
     fl_lit = (\<lambda>x. x),
     fl_of_int = real_of_int,
     fl_pi = pi,
     fl_neg = uminus,
     fl_add = (+),
     fl_sub = (-),
     fl_mul = (*),
     fl_div = (/),
     fl_is_zero = (\<lambda>x. x = 0),
     fl_lt = (<),
     fl_le = (\<le>),
     fl_sqrt = sqrt,
     fl_sin = sin,
     fl_cos = cos,
     fl_atan2 = (\<lambda>y x. 0),
     fl_pack32 = (\<lambda>x. if \<bar>x\<bar> < 2 ^ 128 - 2 ^ 103 then Some 0 else None) \<rparr>"

section \<open>Meshes\<close>

type_synonym 'f Vec2 = "'f \<times> 'f"
type_synonym 'f Vec3 = "'f \<times> 'f \<times> 'f"

record 'f MeshData =
  vertices :: "'f Vec3 list"
  indices :: "int list"

text \<open>\<open>range(n)\<close> of Python: empty when \<open>n \<le> 0\<close>.\<close>

definition py_range :: "int \<Rightarrow> int list" where
  "py_range n = map int [0..<nat n]"


text \<open>
  The loop of \<open>merge_meshes\<close>, with its three variables \<open>vertices\<close>, \<open>indices\<close> and
  \<open>offset\<close> as accumulators.
\<close>

fun merge_loop :: "'f MeshData list \<Rightarrow> 'f Vec3 list \<Rightarrow> int list \<Rightarrow> int \<Rightarrow> 'f MeshData" where
  "merge_loop [] vs ixs offset = \<lparr> vertices = vs, indices = ixs \<rparr>"
| "merge_loop (mesh # meshes) vs ixs offset =
     merge_loop meshes
       (vs @ vertices mesh)
       (ixs @ map (\<lambda>idx. offset + idx) (indices mesh))
       (offset + int (length (vertices mesh)))"

definition merge_meshes :: "'f MeshData list \<Rightarrow> 'f MeshData" where
  "merge_meshes meshes = merge_loop meshes [] [] 0"

definition build_box :: "'f float_ops \<Rightarrow> 'f Vec3 \<Rightarrow> 'f MeshData" where
  "build_box F size3 =
     (case size3 of (sx, sy, sz) \<Rightarrow>
        let hx = fl_mul F sx (fl_lit F 0.5);
            hy = fl_mul F sy (fl_lit F 0.5);
            hz = fl_mul F sz (fl_lit F 0.5)
        in \<lparr> vertices =
               [ (fl_neg F hx, fl_neg F hy, fl_neg F hz),
                 (hx, fl_neg F hy, fl_neg F hz),
                 (hx, hy, fl_neg F hz),
                 (fl_neg F hx, hy, fl_neg F hz),
                 (fl_neg F hx, fl_neg F hy, hz),
                 (hx, fl_neg F hy, hz),
                 (hx, hy, hz),
                 (fl_neg F hx, hy, hz) ],
             indices =
               [ 0, 1, 2, 0, 2, 3,
                 4, 6, 5, 4, 7, 6,
                 0, 4, 5, 0, 5, 1,
                 3, 2, 6, 3, 6, 7,
                 0, 3, 7, 0, 7, 4,
                 1, 5, 6, 1, 6, 2 ] \<rparr>)"

definition build_octahedron :: "'f float_ops \<Rightarrow> 'f \<Rightarrow> 'f MeshData" where
  "build_octahedron F radius =
     \<lparr> vertices =
         [ (fl_lit F 0, radius, fl_lit F 0),
           (fl_neg F radius, fl_lit F 0, fl_lit F 0),
           (fl_lit F 0, fl_lit F 0, radius),
           (radius, fl_lit F 0, fl_lit F 0),
           (fl_lit F 0, fl_lit F 0, fl_neg F radius),
           (fl_lit F 0, fl_neg F radius, fl_lit F 0) ],
       indices =
         [ 0, 1, 2,
           0, 2, 3,
           0, 3, 4,
           0, 4, 1,
           5, 2, 1,
           5, 3, 2,
           5, 4, 3,
           5, 1, 4 ] \<rparr>"

text \<open>
  \<open>build_prism\<close>: the two centre vertices, then one pass of the first loop per side
  (two ring vertices each) and one pass of the second (twelve indices each).  The
  divisor of \<open>ang\<close> is \<open>sides\<close>, at least 1 inside the loop.
\<close>

definition prism_ring :: "'f float_ops \<Rightarrow> 'f \<Rightarrow> 'f \<Rightarrow> int \<Rightarrow> int \<Rightarrow> 'f Vec3 list" where
  "prism_ring F radius half_h sides i =
     (let ang = fl_div F (fl_mul F (fl_mul F (fl_lit F 2) (fl_pi F)) (fl_of_int F i))
                         (fl_of_int F sides);
          x = fl_mul F (fl_cos F ang) radius;
          z = fl_mul F (fl_sin F ang) radius
      in [(x, half_h, z), (x, fl_neg F half_h, z)])"

definition prism_side :: "int \<Rightarrow> int \<Rightarrow> int list" where
  "prism_side sides i =
     (let top_center = 0;
          bottom_center = 1;
          ni = (i + 1) mod sides;
          top_i = 2 + i * 2;
          bot_i = top_i + 1;
          top_n = 2 + ni * 2;
          bot_n = top_n + 1
      in [top_center, top_n, top_i]
         @ [bottom_center, bot_i, bot_n]
         @ [top_i, top_n, bot_i, bot_i, top_n, bot_n])"

definition build_prism :: "'f float_ops \<Rightarrow> 'f \<Rightarrow> 'f \<Rightarrow> int \<Rightarrow> 'f MeshData" where
  "build_prism F radius height sides =
     (let half_h = fl_mul F height (fl_lit F 0.5)
      in \<lparr> vertices =
             [(fl_lit F 0, half_h, fl_lit F 0), (fl_lit F 0, fl_neg F half_h, fl_lit F 0)]
             @ concat (map (prism_ring F radius half_h sides) (py_range sides)),
           indices = concat (map (prism_side sides) (py_range sides)) \<rparr>)"

section \<open>Hash noise\<close>

text \<open>
  \<open>hash_noise\<close> mixes three unbounded Python ints; \<open>&\<close>, \<open>^\<close> and \<open>>>\<close> act on the
  two's complement of a negative int, as the bit operations of \<open>int\<close> do.
  \<open>hash_noise_n\<close> is the last value of \<open>n\<close>, and the result is the true quotient
  \<open>n / 0xFFFFFFFF\<close>: the float Python returns is this quotient rounded, and 0 and 1
  are floats.
\<close>

definition hash_noise_n :: "int \<Rightarrow> int \<Rightarrow> int \<Rightarrow> int" where
  "hash_noise_n x y seed =
     (let n0 = (x * 73856093) XOR (y * 19349663) XOR (seed * 83492791);
          n1 = n0 AND 4294967295;
          n2 = (n1 XOR (drop_bit 13 n1)) * 1274126177;
          n3 = n2 AND 4294967295
      in n3)"

definition hash_noise :: "int \<Rightarrow> int \<Rightarrow> int \<Rightarrow> real" where
  "hash_noise x y seed = real_of_int (hash_noise_n x y seed) / 4294967295"

section \<open>Counts of the primitive builders\<close>

lemma length_py_range: "length (py_range n) = nat n"
  by (simp add: py_range_def)

lemma length_concat_const:
  assumes "\<And>x. x \<in> set xs \<Longrightarrow> length (f x) = k"
  shows "length (concat (map f xs)) = k * length xs"
  using assms by (induction xs) auto

lemma length_prism_ring: "length (prism_ring F radius half_h sides i) = 2"
  by (simp add: prism_ring_def Let_def)

lemma length_prism_side: "length (prism_side sides i) = 12"
  by (simp add: prism_side_def Let_def)

lemma length_vertices_build_prism:
  "length (vertices (build_prism F radius height sides)) = 2 + 2 * nat sides"
  by (simp add: build_prism_def Let_def length_concat_const [where k = 2]
      length_prism_ring length_py_range)

lemma length_indices_build_prism:
  "length (indices (build_prism F radius height sides)) = 12 * nat sides"
  by (simp add: build_prism_def Let_def length_concat_const [where k = 12]
      length_prism_side length_py_range)

text \<open>
  Claim C3, as the spec states it, gives the prism \<open>9 * sides\<close> indices.  Each pass of
  the second loop of \<open>build_prism\<close> extends the index list three times, by 3, 3 and 6
  entries: a prism of 3 sides has 36 indices, not 27.
\<close>

theorem build_prism_indices_not_9_sides:
  "int (length (indices (build_prism exact_ops 1 1 3))) \<noteq> 9 * 3"
  by (simp add: length_indices_build_prism)

text \<open>
  Claim C3, amended: \<open>build_box\<close> returns 8 vertices and 36 indices,
  \<open>build_octahedron\<close> 6 vertices and 24 indices, and \<open>build_prism\<close> with
  \<open>sides \<ge> 3\<close> returns \<open>2 + 2 * sides\<close> vertices and \<open>12 * sides\<close> indices, whatever
  the float parameters are.
\<close>

theorem builder_counts:
  "length (vertices (build_box F size3)) = 8 \<and> length (indices (build_box F size3)) = 36
   \<and> length (vertices (build_octahedron F radius)) = 6
   \<and> length (indices (build_octahedron F radius)) = 24
   \<and> (3 \<le> sides \<longrightarrow>
        int (length (vertices (build_prism F radius height sides))) = 2 + 2 * sides
        \<and> int (length (indices (build_prism F radius height sides))) = 12 * sides)"
  by (simp add: length_indices_build_prism length_vertices_build_prism build_box_def
      build_octahedron_def Let_def split: prod.splits)

theorem builder_counts_witness:
  "int (length (vertices (build_prism exact_ops (16 / 100) (55 / 100) 6))) = 14
   \<and> int (length (indices (build_prism exact_ops (16 / 100) (55 / 100) 6))) = 72"
  using builder_counts [where F = exact_ops and sides = 6 and radius = "16 / 100"
      and height = "55 / 100"]
  by simp

section \<open>Merging meshes\<close>

text \<open>The cumulative vertex offset of the \<open>k\<close>-th mesh: the vertex counts before it.\<close>

definition mesh_offset :: "'f MeshData list \<Rightarrow> nat \<Rightarrow> int" where
  "mesh_offset meshes k = int (sum_list (map (\<lambda>m. length (vertices m)) (take k meshes)))"

definition tri :: "int MeshData" where
  "tri = \<lparr> vertices = [(0, 0, 0), (1, 0, 0), (0, 1, 0)], indices = [0, 1, 2] \<rparr>"

lemma merge_loop_vertices:
  "vertices (merge_loop ms vs ixs off) = vs @ concat (map vertices ms)"
  by (induction ms arbitrary: vs ixs off) auto

lemma merge_loop_indices:
  "indices (merge_loop ms vs ixs off) =
     ixs @ concat (map (\<lambda>k. map (\<lambda>idx. off + mesh_offset ms k + idx) (indices (ms ! k)))
                       [0..<length ms])"
proof (induction ms arbitrary: vs ixs off)
  case Nil
  then show ?case by simp
next
  case (Cons m ms)
  have shift: "[0..<length (m # ms)] = 0 # map Suc [0..<length ms]"
    by (simp add: upt_conv_Cons map_Suc_upt del: upt_Suc)
  show ?case
    unfolding shift
    by (simp add: Cons.IH mesh_offset_def o_def add.assoc del: upt_Suc)
qed

lemma length_concat_sum:
  "length (concat (map f xs)) = sum_list (map (\<lambda>x. length (f x)) xs)"
  by (induction xs) auto

lemma merge_loop_bound:
  assumes "\<forall>m\<in>set ms. \<forall>idx\<in>set (indices m). idx < int (length (vertices m))"
    and "\<forall>idx\<in>set ixs. idx < int (length vs)"
    and "off = int (length vs)"
  shows "\<forall>idx\<in>set (indices (merge_loop ms vs ixs off)).
           idx < int (length (vertices (merge_loop ms vs ixs off)))"
  using assms
proof (induction ms arbitrary: vs ixs off)
  case Nil
  then show ?case by simp
next
  case (Cons m ms)
  have ixs': "\<forall>idx\<in>set (ixs @ map (\<lambda>idx. off + idx) (indices m)).
                idx < int (length (vs @ vertices m))"
    using Cons.prems by fastforce
  have off': "off + int (length (vertices m)) = int (length (vs @ vertices m))"
    using Cons.prems by simp
  have ms': "\<forall>m\<in>set ms. \<forall>idx\<in>set (indices m). idx < int (length (vertices m))"
    using Cons.prems by simp
  show ?case
    using Cons.IH [OF ms' ixs' off'] by simp
qed

text \<open>
  Claim C4: when every input mesh has all its indices below its own vertex count,
  \<open>merge_meshes\<close> returns the sum of the vertex counts as vertex count, every merged
  index is below the merged vertex count, the vertices are the inputs' in argument
  order, and the indices of the \<open>k\<close>-th mesh appear rebased by the vertex counts of
  the meshes before it.
\<close>

theorem merge_meshes_counts:
  assumes "\<forall>m\<in>set meshes. \<forall>idx\<in>set (indices m). idx < int (length (vertices m))"
  shows "length (vertices (merge_meshes meshes)) = sum_list (map (\<lambda>m. length (vertices m)) meshes)
     \<and> (\<forall>idx\<in>set (indices (merge_meshes meshes)).
           idx < int (length (vertices (merge_meshes meshes))))
     \<and> vertices (merge_meshes meshes) = concat (map vertices meshes)
     \<and> indices (merge_meshes meshes) =
         concat (map (\<lambda>k. map (\<lambda>idx. mesh_offset meshes k + idx) (indices (meshes ! k)))
                     [0..<length meshes])"
proof -
  have "\<forall>idx\<in>set (indices (merge_meshes meshes)).
          idx < int (length (vertices (merge_meshes meshes)))"
    unfolding merge_meshes_def using assms by (intro merge_loop_bound) simp_all
  then show ?thesis
    by (simp add: merge_meshes_def merge_loop_vertices merge_loop_indices length_concat_sum o_def)
qed

theorem merge_meshes_counts_witness:
  "length (vertices (merge_meshes [tri, tri])) = 6
   \<and> indices (merge_meshes [tri, tri]) = [0, 1, 2, 3, 4, 5]"
  using merge_meshes_counts [of "[tri, tri]"]
  by (simp add: tri_def merge_meshes_def)

section \<open>Range of the hash noise\<close>

lemma hash_noise_n_range:
  "0 \<le> hash_noise_n x y seed \<and> hash_noise_n x y seed \<le> 4294967295"
  by (simp add: hash_noise_n_def Let_def AND_upper2')

text \<open>
  Claim C5, as the spec states it, puts the result in \<open>[0, 1)\<close>.  The divisor is
  \<open>0xFFFFFFFF\<close>, the largest value \<open>n\<close> can take, and \<open>n\<close> takes it: at
  \<open>(1494753429, 0, 0)\<close> the result is 1.
\<close>

theorem hash_noise_reaches_one:
  "\<not> hash_noise 1494753429 0 0 < 1"
  by (simp add: hash_noise_def hash_noise_n_def Let_def)

text \<open>
  Claim C5, amended: \<open>hash_noise\<close> is a function of its three arguments alone, its
  result lies in the closed interval \<open>[0, 1]\<close>, and it is 1 exactly when the mixed
  32-bit value is \<open>0xFFFFFFFF\<close>.
\<close>

theorem hash_noise_closed_unit_interval:
  "0 \<le> hash_noise x y seed \<and> hash_noise x y seed \<le> 1
   \<and> (hash_noise x y seed = 1 \<longleftrightarrow> hash_noise_n x y seed = 4294967295)"
  using hash_noise_n_range [of x y seed] by (simp add: hash_noise_def)

section \<open>The Python runtime as an interface\<close>

text \<open>
  Byte strings are lists of 8-bit words.  An exception of the source is a value of
  \<open>py_error\<close>, and a function that may raise returns \<open>py_error + 'a\<close>.

  What the scripts take from the standard library is not modelled either: zlib, the
  JSON codec and the conversions \<open>int(...)\<close> are the fields of a record \<open>runtime\<close>.  \<open>json_dumps\<close> stands for \<open>json.dumps\<close> followed by the
  UTF-8 encoding of \<open>write_text\<close>, \<open>json_loads\<close> for \<open>read_text\<close> followed by
  \<open>json.loads\<close>, \<open>None\<close> when either raises.  A write to the file system is taken to
  succeed.
\<close>

type_synonym byte = "8 word"

datatype py_error =
    StructError
  | ValueError string
  | IndexError
  | KeyError
  | TypeError
  | AttributeError
  | OverflowError
  | ZeroDivisionError
  | OSError

datatype 'f json =
    JNull
  | JBool bool
  | JInt int
  | JFloat 'f
  | JStr string
  | JArr "'f json list"
  | JObj "(string \<times> 'f json) list"

record 'f runtime =
  rt_float :: "'f float_ops"
  zlib_compress :: "byte list \<Rightarrow> byte list"
  zlib_crc32 :: "byte list \<Rightarrow> int"
  json_dumps :: "'f json \<Rightarrow> byte list"
  json_loads :: "byte list \<Rightarrow> 'f json option"
  int_of_str :: "string \<Rightarrow> int option"
  int_of_float :: "'f \<Rightarrow> int option"

record 'p filesystem =
  fs_files :: "'p \<Rightarrow> byte list option"
  fs_dirs :: "'p set"

definition path_exists :: "'p filesystem \<Rightarrow> 'p \<Rightarrow> bool" where
  "path_exists fs p \<longleftrightarrow> fs_files fs p \<noteq> None \<or> p \<in> fs_dirs fs"

definition read_bytes :: "'p filesystem \<Rightarrow> 'p \<Rightarrow> py_error + byte list" where
  "read_bytes fs p = (case fs_files fs p of None \<Rightarrow> Inl OSError | Some data \<Rightarrow> Inr data)"

definition write_bytes :: "'p filesystem \<Rightarrow> 'p \<Rightarrow> byte list \<Rightarrow> 'p filesystem" where
  "write_bytes fs p data = fs\<lparr> fs_files := (fs_files fs)(p \<mapsto> data) \<rparr>"

section \<open>PNG encoder and header parser\<close>

text \<open>\<open>xs[a:b]\<close> for \<open>0 \<le> a \<le> b\<close>.\<close>

definition py_slice :: "'a list \<Rightarrow> nat \<Rightarrow> nat \<Rightarrow> 'a list" where
  "py_slice xs a b = take (b - a) (drop a xs)"

definition u32_be :: "int \<Rightarrow> byte list" where
  "u32_be n = [word_of_int (n div 16777216), word_of_int (n div 65536),
               word_of_int (n div 256), word_of_int n]"

definition pack_u32_be :: "int \<Rightarrow> py_error + byte list" where
  "pack_u32_be n = (if 0 \<le> n \<and> n \<le> 4294967295 then Inr (u32_be n) else Inl StructError)"

definition be_uint :: "byte list \<Rightarrow> int" where
  "be_uint bs = foldl (\<lambda>acc b. acc * 256 + uint b) 0 bs"

definition unpack_II_be :: "byte list \<Rightarrow> py_error + int \<times> int" where
  "unpack_II_be bs =
     (if length bs = 8 then Inr (be_uint (take 4 bs), be_uint (drop 4 bs)) else Inl StructError)"

definition png_signature :: "byte list" where
  "png_signature = [137, 80, 78, 71, 13, 10, 26, 10]"

definition IHDR :: "byte list" where "IHDR = [73, 72, 68, 82]"
definition IDAT :: "byte list" where "IDAT = [73, 68, 65, 84]"
definition IEND :: "byte list" where "IEND = [73, 69, 78, 68]"

definition read_png_size :: "'p filesystem \<Rightarrow> 'p \<Rightarrow> py_error + int \<times> int" where
  "read_png_size fs path =
     (case read_bytes fs path of
        Inl e \<Rightarrow> Inl e
      | Inr data \<Rightarrow>
          if length data < 33 then Inl (ValueError ''png too short'')
          else if py_slice data 0 8 \<noteq> png_signature then Inl (ValueError ''invalid png signature'')
          else if py_slice data 12 16 \<noteq> IHDR then Inl (ValueError ''missing IHDR chunk'')
          else unpack_II_be (py_slice data 16 24))"

definition byte_of_int :: "int \<Rightarrow> py_error + byte" where
  "byte_of_int v =
     (if 0 \<le> v \<and> v < 256 then Inr (word_of_int v)
      else Inl (ValueError ''byte must be in range(0, 256)''))"

definition chunk :: "'f runtime \<Rightarrow> byte list \<Rightarrow> byte list \<Rightarrow> py_error + byte list" where
  "chunk R chunk_type data =
     (case pack_u32_be (int (length data)) of
        Inl e \<Rightarrow> Inl e
      | Inr len_bytes \<Rightarrow>
          (case pack_u32_be (zlib_crc32 R (chunk_type @ data) AND 4294967295) of
             Inl e \<Rightarrow> Inl e
           | Inr crc_bytes \<Rightarrow> Inr (len_bytes @ chunk_type @ data @ crc_bytes)))"

text \<open>
  The two loops of \<open>write_png\<close>: \<open>row_loop\<close> extends \<open>row\<close> pixel by pixel, and
  \<open>bytearray.extend\<close> raises ValueError on a component outside \<open>range(256)\<close>;
  \<open>rows_loop\<close> appends the rows.
\<close>

fun row_loop :: "(int \<Rightarrow> int \<Rightarrow> int \<times> int \<times> int) \<Rightarrow> int \<Rightarrow> int list \<Rightarrow> byte list
    \<Rightarrow> py_error + byte list" where
  "row_loop pixel_fn y [] row = Inr row"
| "row_loop pixel_fn y (x # xs) row =
     (case pixel_fn x y of (r, g, b) \<Rightarrow>
        (case byte_of_int r of Inl e \<Rightarrow> Inl e | Inr rb \<Rightarrow>
         case byte_of_int g of Inl e \<Rightarrow> Inl e | Inr gb \<Rightarrow>
         case byte_of_int b of Inl e \<Rightarrow> Inl e | Inr bb \<Rightarrow>
           row_loop pixel_fn y xs (row @ [rb, gb, bb])))"

fun rows_loop :: "(int \<Rightarrow> int \<Rightarrow> int \<times> int \<times> int) \<Rightarrow> int \<Rightarrow> int list \<Rightarrow> byte list list
    \<Rightarrow> py_error + byte list list" where
  "rows_loop pixel_fn width [] rows = Inr rows"
| "rows_loop pixel_fn width (y # ys) rows =
     (case row_loop pixel_fn y (py_range width) [0] of
        Inl e \<Rightarrow> Inl e
      | Inr row \<Rightarrow> rows_loop pixel_fn width ys (rows @ [row]))"

definition pack_IHDR :: "int \<Rightarrow> int \<Rightarrow> py_error + byte list" where
  "pack_IHDR width height =
     (case pack_u32_be width of
        Inl e \<Rightarrow> Inl e
      | Inr wb \<Rightarrow>
          (case pack_u32_be height of
             Inl e \<Rightarrow> Inl e
           | Inr hb \<Rightarrow> Inr (wb @ hb @ [8, 2, 0, 0, 0])))"

definition png_raw :: "(int \<Rightarrow> int \<Rightarrow> int \<times> int \<times> int) \<Rightarrow> int \<Rightarrow> int \<Rightarrow> py_error + byte list" where
  "png_raw pixel_fn width height =
     (case rows_loop pixel_fn width (py_range height) [] of
        Inl e \<Rightarrow> Inl e
      | Inr rows \<Rightarrow> Inr (concat rows))"

definition png_bytes :: "'f runtime \<Rightarrow> int \<Rightarrow> int \<Rightarrow> (int \<Rightarrow> int \<Rightarrow> int \<times> int \<times> int)
    \<Rightarrow> py_error + byte list" where
  "png_bytes R width height pixel_fn =
     (case png_raw pixel_fn width height of
        Inl e \<Rightarrow> Inl e
      | Inr raw \<Rightarrow>
          let compressed = zlib_compress R raw
          in (case pack_IHDR width height of
                Inl e \<Rightarrow> Inl e
              | Inr header \<Rightarrow>
                  (case chunk R IHDR header of
                     Inl e \<Rightarrow> Inl e
                   | Inr c1 \<Rightarrow>
                       (case chunk R IDAT compressed of
                          Inl e \<Rightarrow> Inl e
                        | Inr c2 \<Rightarrow>
                            (case chunk R IEND [] of
                               Inl e \<Rightarrow> Inl e
                             | Inr c3 \<Rightarrow> Inr (png_signature @ c1 @ c2 @ c3))))))"

definition write_png :: "'f runtime \<Rightarrow> 'p filesystem \<Rightarrow> 'p \<Rightarrow> int \<Rightarrow> int
    \<Rightarrow> (int \<Rightarrow> int \<Rightarrow> int \<times> int \<times> int) \<Rightarrow> py_error + 'p filesystem" where
  "write_png R fs path width height pixel_fn =
     (case png_bytes R width height pixel_fn of
        Inl e \<Rightarrow> Inl e
      | Inr png \<Rightarrow> Inr (write_bytes fs path png))"

definition rgb_bytes :: "int \<times> int \<times> int \<Rightarrow> bool" where
  "rgb_bytes c = (case c of (r, g, b) \<Rightarrow> 0 \<le> r \<and> r < 256 \<and> 0 \<le> g \<and> g < 256 \<and> 0 \<le> b \<and> b < 256)"

lemma row_loop_ok:
  assumes "\<forall>x y. rgb_bytes (pixel_fn x y)"
  shows "\<exists>r. row_loop pixel_fn y xs row = Inr r"
  using assms
proof (induction xs arbitrary: row)
  case Nil
  then show ?case by simp
next
  case (Cons x xs)
  obtain r g b where p: "pixel_fn x y = (r, g, b)" by (cases "pixel_fn x y")
  with Cons.prems have "rgb_bytes (r, g, b)" by metis
  then show ?case
    using Cons.IH [OF Cons.prems] p by (simp add: rgb_bytes_def byte_of_int_def)
qed

lemma rows_loop_ok:
  assumes "\<forall>x y. rgb_bytes (pixel_fn x y)"
  shows "\<exists>r. rows_loop pixel_fn width ys rows = Inr r"
proof (induction ys arbitrary: rows)
  case Nil
  then show ?case by simp
next
  case (Cons y ys)
  obtain row where "row_loop pixel_fn y (py_range width) [0] = Inr row"
    using row_loop_ok [OF assms] by blast
  then show ?case using Cons.IH by simp
qed

section \<open>PNG: what is written is what is read back\<close>

lemma be_uint_pack:
  assumes "0 \<le> n" "n \<le> 4294967295"
  shows "be_uint (u32_be n) = n"
proof -
  define q1 where "q1 = n div 256"
  define q2 where "q2 = q1 div 256"
  define q3 where "q3 = q2 div 256"
  have d2: "n div 65536 = q2"
    unfolding q2_def q1_def by (simp add: zdiv_zmult2_eq)
  have d3: "n div 16777216 = q3"
    unfolding q3_def q2_def q1_def by (simp add: zdiv_zmult2_eq)
  define r0 where "r0 = n mod 256"
  define r1 where "r1 = q1 mod 256"
  define r2 where "r2 = q2 mod 256"
  have e1: "n = q1 * 256 + r0" unfolding q1_def r0_def by simp
  have e2: "q1 = q2 * 256 + r1" unfolding q2_def r1_def by simp
  have e3: "q2 = q3 * 256 + r2" unfolding q3_def r2_def by simp
  have "0 \<le> q3" "q3 < 256" using assms unfolding d3 [symmetric] by simp_all
  then have e4: "q3 mod 256 = q3" by simp
  have "be_uint [word_of_int q3, word_of_int q2, word_of_int q1, word_of_int n :: byte]
      = ((q3 mod 256 * 256 + r2) * 256 + r1) * 256 + r0"
    by (simp add: be_uint_def uint_word_of_int take_bit_eq_mod r0_def r1_def r2_def)
  also have "\<dots> = ((q3 * 256 + r2) * 256 + r1) * 256 + r0" by (simp only: e4)
  also have "\<dots> = n" using e1 e2 e3 by simp
  finally show ?thesis by (simp only: u32_be_def d2 d3 q1_def [symmetric])
qed

lemma png_raw_ok:
  assumes "\<forall>x y. rgb_bytes (pixel_fn x y)"
  shows "\<exists>raw. png_raw pixel_fn width height = Inr raw"
proof -
  obtain rows where "rows_loop pixel_fn width (py_range height) [] = Inr rows"
    using rows_loop_ok [OF assms] by blast
  then show ?thesis by (simp add: png_raw_def)
qed

lemma length_u32_be: "length (u32_be n) = 4"
  by (simp add: u32_be_def)

lemma chunk_ok:
  assumes "int (length data) \<le> 4294967295"
  shows "chunk R chunk_type data =
           Inr (u32_be (int (length data)) @ chunk_type @ data
                @ u32_be (zlib_crc32 R (chunk_type @ data) AND 4294967295))"
  using assms by (simp add: chunk_def pack_u32_be_def AND_upper2')

lemma chunk_too_long:
  assumes "\<not> int (length data) \<le> 4294967295"
  shows "chunk R chunk_type data = Inl StructError"
  using assms by (simp add: chunk_def pack_u32_be_def)

lemma pack_IHDR_ok:
  assumes "0 \<le> width" "width \<le> 4294967295" "0 \<le> height" "height \<le> 4294967295"
  shows "pack_IHDR width height = Inr (u32_be width @ u32_be height @ [8, 2, 0, 0, 0])"
  using assms by (simp add: pack_IHDR_def pack_u32_be_def)

lemma pack_IHDR_range:
  assumes "\<not> (0 \<le> width \<and> width \<le> 4294967295 \<and> 0 \<le> height \<and> height \<le> 4294967295)"
  shows "pack_IHDR width height = Inl StructError"
  using assms by (auto simp add: pack_IHDR_def pack_u32_be_def)

lemma png_bytes_out_of_range:
  assumes "\<forall>x y. rgb_bytes (pixel_fn x y)"
    and "\<not> (0 \<le> width \<and> width \<le> 4294967295 \<and> 0 \<le> height \<and> height \<le> 4294967295)"
  shows "png_bytes R width height pixel_fn = Inl StructError"
proof -
  obtain raw where "png_raw pixel_fn width height = Inr raw"
    using png_raw_ok [OF assms(1)] by blast
  then show ?thesis
    by (simp add: png_bytes_def Let_def pack_IHDR_range [OF assms(2)])
qed

lemma png_bytes_ok:
  assumes "0 \<le> width" "width \<le> 4294967295" "0 \<le> height" "height \<le> 4294967295"
    and "png_raw pixel_fn width height = Inr raw"
    and "int (length (zlib_compress R raw)) \<le> 4294967295"
  shows "\<exists>rest. 9 \<le> length rest \<and>
           png_bytes R width height pixel_fn =
             Inr (png_signature @ u32_be 13 @ IHDR @ u32_be width @ u32_be height @ rest)"
  using assms
  by (simp add: png_bytes_def Let_def pack_IHDR_ok chunk_ok length_u32_be)

lemma read_png_size_layout:
  assumes stored: "fs_files fs path =
      Some (png_signature @ lenb @ IHDR @ u32_be width @ u32_be height @ rest)"
    and "length lenb = 4" and "9 \<le> length rest"
    and range: "0 \<le> width" "width \<le> 4294967295" "0 \<le> height" "height \<le> 4294967295"
  shows "read_png_size fs path = Inr (width, height)"
proof -
  define data where "data = png_signature @ lenb @ IHDR @ u32_be width @ u32_be height @ rest"
  have l: "length png_signature = 8" "length IHDR = 4"
    by (simp_all add: png_signature_def IHDR_def)
  have s0: "py_slice data 0 8 = png_signature"
    by (simp add: data_def py_slice_def l)
  have s1: "py_slice data 12 16 = IHDR"
    using assms(2) by (simp add: data_def py_slice_def l)
  have s2: "py_slice data 16 24 = u32_be width @ u32_be height"
    using assms(2) by (simp add: data_def py_slice_def l length_u32_be)
  have len: "\<not> length data < 33"
    using assms(2,3) by (simp add: data_def l length_u32_be)
  have "fs_files fs path = Some data"
    using stored by (simp only: data_def)
  then show ?thesis
    unfolding read_png_size_def read_bytes_def
    using len
    by (simp add: s0 s1 s2 unpack_II_be_def length_u32_be be_uint_pack range)
qed

text \<open>A runtime and a file system to run the model on concrete inputs.\<close>

definition demo_runtime :: "real runtime" where
  "demo_runtime = \<lparr>
     rt_float = exact_ops,
     zlib_compress = (\<lambda>raw. raw),
     zlib_crc32 = (\<lambda>data. 0),
     json_dumps = (\<lambda>doc. []),
     json_loads = (\<lambda>data. None),
     int_of_str = (\<lambda>s. None),
     int_of_float = (\<lambda>x. Some (floor x)) \<rparr>"

definition empty_fs :: "'p filesystem" where
  "empty_fs = \<lparr> fs_files = (\<lambda>p. None), fs_dirs = {} \<rparr>"

definition red_pixel :: "int \<Rightarrow> int \<Rightarrow> int \<times> int \<times> int" where
  "red_pixel x y = (255, 0, 0)"

text \<open>
  Claim C1, amended: for \<open>1 \<le> width, height < 2 ^ 32\<close>, a pixel function that returns
  byte triples and compressed scanlines shorter than \<open>2 ^ 32\<close> bytes, \<open>write_png\<close> writes
  a file from which \<open>read_png_size\<close> reads back exactly \<open>(width, height)\<close>; and
  \<open>read_png_size\<close> raises ValueError on a file shorter than 33 bytes, on one whose
  first 8 bytes are not the signature, and on one without \<open>IHDR\<close> at offset 12.
\<close>

theorem png_round_trip:
  assumes "1 \<le> width" "width < 2 ^ 32" "1 \<le> height" "height < 2 ^ 32"
    and "\<forall>x y. rgb_bytes (pixel_fn x y)"
    and "\<forall>raw. png_raw pixel_fn width height = Inr raw
           \<longrightarrow> int (length (zlib_compress R raw)) < 2 ^ 32"
  shows "(\<exists>fs'. write_png R fs path width height pixel_fn = Inr fs'
              \<and> read_png_size fs' path = Inr (width, height))
     \<and> (\<forall>data. fs_files fs path = Some data
            \<and> (length data < 33 \<or> take 8 data \<noteq> png_signature \<or> take 4 (drop 12 data) \<noteq> IHDR)
          \<longrightarrow> (\<exists>msg. read_png_size fs path = Inl (ValueError msg)))"
proof -
  obtain raw where raw: "png_raw pixel_fn width height = Inr raw"
    using png_raw_ok [OF assms(5)] by blast
  then have "int (length (zlib_compress R raw)) \<le> 4294967295"
    using assms(6) by fastforce
  with raw assms(1-4) obtain rest where rest: "9 \<le> length rest"
    "png_bytes R width height pixel_fn =
       Inr (png_signature @ u32_be 13 @ IHDR @ u32_be width @ u32_be height @ rest)"
    using png_bytes_ok [of width height pixel_fn raw R] by auto
  have "read_png_size (write_bytes fs path
      (png_signature @ u32_be 13 @ IHDR @ u32_be width @ u32_be height @ rest)) path
      = Inr (width, height)"
    using rest(1) assms(1-4)
    by (intro read_png_size_layout [where lenb = "u32_be 13" and rest = rest])
       (simp_all add: write_bytes_def length_u32_be)
  then have first: "\<exists>fs'. write_png R fs path width height pixel_fn = Inr fs'
      \<and> read_png_size fs' path = Inr (width, height)"
    by (simp add: write_png_def rest(2))
  have second: "\<forall>data. fs_files fs path = Some data
            \<and> (length data < 33 \<or> take 8 data \<noteq> png_signature \<or> take 4 (drop 12 data) \<noteq> IHDR)
          \<longrightarrow> (\<exists>msg. read_png_size fs path = Inl (ValueError msg))"
    by (auto simp add: read_png_size_def read_bytes_def py_slice_def)
  from first second show ?thesis by blast
qed

lemma write_png_out_of_range:
  assumes "\<forall>x y. rgb_bytes (pixel_fn x y)"
    and "\<not> (0 \<le> width \<and> width \<le> 4294967295 \<and> 0 \<le> height \<and> height \<le> 4294967295)"
  shows "write_png R fs path width height pixel_fn = Inl StructError"
  by (simp add: write_png_def png_bytes_out_of_range [OF assms])

text \<open>
  Claim C1, as the spec states it, covers every \<open>width \<ge> 1\<close>.  The header is packed
  with the format \<open>">IIBBBBB"\<close>: at \<open>width = 2 ^ 32\<close> \<open>struct.pack\<close> raises and no file
  is written.
\<close>

theorem write_png_rejects_width_2_32:
  "write_png demo_runtime empty_fs [''t.png''] 4294967296 1 red_pixel = Inl StructError"
  by (rule write_png_out_of_range) (simp_all add: rgb_bytes_def red_pixel_def)

theorem png_round_trip_witness:
  "(\<exists>fs'. write_png demo_runtime empty_fs [''t.png''] 2 1 red_pixel = Inr fs'
           \<and> read_png_size fs' [''t.png''] = Inr (2, 1))
   \<and> (\<exists>msg. read_png_size (write_bytes empty_fs [''t.png''] [137, 80, 78, 71]) [''t.png'']
            = Inl (ValueError msg))"
proof -
  have raw: "png_raw red_pixel 2 1 = Inr [0, 255, 0, 0, 255, 0, 0]"
    by (simp add: png_raw_def py_range_def red_pixel_def byte_of_int_def upt_conv_Cons)
  have a: "\<forall>x y. rgb_bytes (red_pixel x y)"
    by (simp add: rgb_bytes_def red_pixel_def)
  have b: "\<forall>r. png_raw red_pixel 2 1 = Inr r
           \<longrightarrow> int (length (zlib_compress demo_runtime r)) < 2 ^ 32"
    by (simp add: raw demo_runtime_def)
  have c: "fs_files (write_bytes empty_fs [''t.png''] [137, 80, 78, 71]) [''t.png'']
      = Some [137, 80, 78, 71]"
    by (simp add: write_bytes_def)
  show ?thesis
    using png_round_trip [of 2 1 red_pixel demo_runtime empty_fs "[''t.png'']", OF _ _ _ _ a b]
      png_round_trip [of 2 1 red_pixel demo_runtime
        "write_bytes empty_fs [''t.png''] [137, 80, 78, 71]" "[''t.png'']", OF _ _ _ _ a b] c
    by (simp add: png_signature_def)
qed

section \<open>Paths\<close>

text \<open>
  A path of pathlib, as the scripts use it on a POSIX system: whether it is absolute,
  and its components.  \<open>path_join\<close> is the operator \<open>/\<close> with a string on the right:
  the string is split at slashes, empty and \<open>.\<close> components are dropped, and a string
  that starts with a slash replaces the path.  \<open>path_stem\<close> cuts the last suffix as
  \<open>PurePath.stem\<close> does, and \<open>path_with_name\<close> raises ValueError where
  \<open>PurePath.with_name\<close> does.
\<close>

record py_path =
  is_abs :: bool
  parts :: "string list"

fun split_slash :: "string \<Rightarrow> string list" where
  "split_slash [] = [[]]"
| "split_slash (c # cs) =
     (if c = CHR ''/'' then [] # split_slash cs
      else (case split_slash cs of [] \<Rightarrow> [[c]] | w # ws \<Rightarrow> (c # w) # ws))"

definition path_segments :: "string \<Rightarrow> string list" where
  "path_segments s = filter (\<lambda>w. w \<noteq> [] \<and> w \<noteq> ''.'') (split_slash s)"

definition path_join :: "py_path \<Rightarrow> string \<Rightarrow> py_path" where
  "path_join p s =
     (if s \<noteq> [] \<and> hd s = CHR ''/'' then \<lparr> is_abs = True, parts = path_segments s \<rparr>
      else p\<lparr> parts := parts p @ path_segments s \<rparr>)"

definition path_parent :: "py_path \<Rightarrow> py_path" where
  "path_parent p = p\<lparr> parts := butlast (parts p) \<rparr>"

definition path_name :: "py_path \<Rightarrow> string" where
  "path_name p = (if parts p = [] then [] else last (parts p))"

fun rfind_dot :: "string \<Rightarrow> nat option" where
  "rfind_dot [] = None"
| "rfind_dot (c # cs) =
     (case rfind_dot cs of
        Some i \<Rightarrow> Some (Suc i)
      | None \<Rightarrow> if c = CHR ''.'' then Some 0 else None)"

definition path_stem :: "py_path \<Rightarrow> string" where
  "path_stem p =
     (let name = path_name p
      in case rfind_dot name of
           None \<Rightarrow> name
         | Some i \<Rightarrow> if 0 < i \<and> i < length name - 1 then take i name else name)"

definition path_with_name :: "py_path \<Rightarrow> string \<Rightarrow> py_error + py_path" where
  "path_with_name p name =
     (if path_name p = [] then Inl (ValueError ''has an empty name'')
      else if path_segments name \<noteq> [name] then Inl (ValueError ''Invalid name'')
      else Inr (p\<lparr> parts := butlast (parts p) @ [name] \<rparr>))"


section \<open>Normals and UVs\<close>

text \<open>
  \<open>xs[i]\<close> and \<open>xs[i] = v\<close> on a Python list: a negative index counts from the end, an
  index out of range raises IndexError.  \<open>py_truediv\<close> is \<open>/\<close> on floats.
\<close>

definition py_index :: "'a list \<Rightarrow> int \<Rightarrow> py_error + 'a" where
  "py_index xs i =
     (let n = int (length xs); j = (if i < 0 then n + i else i)
      in if 0 \<le> j \<and> j < n then Inr (xs ! nat j) else Inl IndexError)"

definition py_setitem :: "'a list \<Rightarrow> int \<Rightarrow> 'a \<Rightarrow> py_error + 'a list" where
  "py_setitem xs i v =
     (let n = int (length xs); j = (if i < 0 then n + i else i)
      in if 0 \<le> j \<and> j < n then Inr (xs[nat j := v]) else Inl IndexError)"

definition py_truediv :: "'f float_ops \<Rightarrow> 'f \<Rightarrow> 'f \<Rightarrow> py_error + 'f" where
  "py_truediv F a b = (if fl_is_zero F b then Inl ZeroDivisionError else Inr (fl_div F a b))"

definition add3 :: "'f float_ops \<Rightarrow> 'f Vec3 \<Rightarrow> 'f Vec3 \<Rightarrow> 'f Vec3" where
  "add3 F a b =
     (case a of (a0, a1, a2) \<Rightarrow> case b of (b0, b1, b2) \<Rightarrow>
        (fl_add F a0 b0, fl_add F a1 b1, fl_add F a2 b2))"

definition sub3 :: "'f float_ops \<Rightarrow> 'f Vec3 \<Rightarrow> 'f Vec3 \<Rightarrow> 'f Vec3" where
  "sub3 F a b =
     (case a of (a0, a1, a2) \<Rightarrow> case b of (b0, b1, b2) \<Rightarrow>
        (fl_sub F a0 b0, fl_sub F a1 b1, fl_sub F a2 b2))"

definition cross3 :: "'f float_ops \<Rightarrow> 'f Vec3 \<Rightarrow> 'f Vec3 \<Rightarrow> 'f Vec3" where
  "cross3 F a b =
     (case a of (a0, a1, a2) \<Rightarrow> case b of (b0, b1, b2) \<Rightarrow>
        (fl_sub F (fl_mul F a1 b2) (fl_mul F a2 b1),
         fl_sub F (fl_mul F a2 b0) (fl_mul F a0 b2),
         fl_sub F (fl_mul F a0 b1) (fl_mul F a1 b0)))"

definition len3 :: "'f float_ops \<Rightarrow> 'f Vec3 \<Rightarrow> 'f" where
  "len3 F v =
     (case v of (v0, v1, v2) \<Rightarrow>
        fl_sqrt F (fl_add F (fl_add F (fl_mul F v0 v0) (fl_mul F v1 v1)) (fl_mul F v2 v2)))"

definition normalize3 :: "'f float_ops \<Rightarrow> 'f Vec3 \<Rightarrow> py_error + 'f Vec3" where
  "normalize3 F v =
     (let l = len3 F v
      in if fl_le F l (fl_lit F (1 / 10 ^ 8)) then Inr (fl_lit F 0, fl_lit F 1, fl_lit F 0)
         else (case v of (v0, v1, v2) \<Rightarrow>
                 (case py_truediv F v0 l of Inl e \<Rightarrow> Inl e | Inr n0 \<Rightarrow>
                  case py_truediv F v1 l of Inl e \<Rightarrow> Inl e | Inr n1 \<Rightarrow>
                  case py_truediv F v2 l of Inl e \<Rightarrow> Inl e | Inr n2 \<Rightarrow>
                    Inr (n0, n1, n2))))"

text \<open>
  The loop of \<open>compute_normals\<close> takes the indices three at a time; reading
  \<open>indices[i + 1]\<close> or \<open>indices[i + 2]\<close> past the end raises IndexError.
\<close>

fun normals_loop :: "'f float_ops \<Rightarrow> 'f Vec3 list \<Rightarrow> int list \<Rightarrow> 'f Vec3 list
    \<Rightarrow> py_error + 'f Vec3 list" where
  "normals_loop F vs [] normals = Inr normals"
| "normals_loop F vs [i0] normals = Inl IndexError"
| "normals_loop F vs [i0, i1] normals = Inl IndexError"
| "normals_loop F vs (i0 # i1 # i2 # rest) normals =
     (case py_index vs i0 of Inl e \<Rightarrow> Inl e | Inr p0 \<Rightarrow>
      case py_index vs i1 of Inl e \<Rightarrow> Inl e | Inr p1 \<Rightarrow>
      case py_index vs i2 of Inl e \<Rightarrow> Inl e | Inr p2 \<Rightarrow>
        let face = cross3 F (sub3 F p1 p0) (sub3 F p2 p0)
        in (case py_index normals i0 of Inl e \<Rightarrow> Inl e | Inr n0 \<Rightarrow>
            case py_setitem normals i0 (add3 F n0 face) of Inl e \<Rightarrow> Inl e | Inr normals0 \<Rightarrow>
            case py_index normals0 i1 of Inl e \<Rightarrow> Inl e | Inr n1 \<Rightarrow>
            case py_setitem normals0 i1 (add3 F n1 face) of Inl e \<Rightarrow> Inl e | Inr normals1 \<Rightarrow>
            case py_index normals1 i2 of Inl e \<Rightarrow> Inl e | Inr n2 \<Rightarrow>
            case py_setitem normals1 i2 (add3 F n2 face) of Inl e \<Rightarrow> Inl e | Inr normals2 \<Rightarrow>
              normals_loop F vs rest normals2))"

text \<open>A list comprehension whose element expression may raise.\<close>

fun map_err :: "('a \<Rightarrow> py_error + 'b) \<Rightarrow> 'a list \<Rightarrow> py_error + 'b list" where
  "map_err f [] = Inr []"
| "map_err f (x # xs) =
     (case f x of Inl e \<Rightarrow> Inl e | Inr y \<Rightarrow>
      case map_err f xs of Inl e \<Rightarrow> Inl e | Inr ys \<Rightarrow> Inr (y # ys))"

definition compute_normals :: "'f float_ops \<Rightarrow> 'f Vec3 list \<Rightarrow> int list \<Rightarrow> py_error + 'f Vec3 list" where
  "compute_normals F vs ixs =
     (case normals_loop F vs ixs (map (\<lambda>_. (fl_lit F 0, fl_lit F 0, fl_lit F 0)) vs) of
        Inl e \<Rightarrow> Inl e
      | Inr normals \<Rightarrow> map_err (normalize3 F) normals)"

text \<open>
  \<open>max(a, b)\<close> returns \<open>b\<close> when \<open>b > a\<close> and \<open>a\<close> otherwise; \<open>min\<close> and \<open>max\<close> over a
  sequence keep the first element until a later one compares smaller (greater), and
  raise ValueError on an empty sequence.
\<close>

definition py_max2 :: "'f float_ops \<Rightarrow> 'f \<Rightarrow> 'f \<Rightarrow> 'f" where
  "py_max2 F a b = (if fl_lt F a b then b else a)"

definition py_min2 :: "'f float_ops \<Rightarrow> 'f \<Rightarrow> 'f \<Rightarrow> 'f" where
  "py_min2 F a b = (if fl_lt F b a then b else a)"

definition py_min :: "'f float_ops \<Rightarrow> 'f list \<Rightarrow> py_error + 'f" where
  "py_min F xs =
     (case xs of
        [] \<Rightarrow> Inl (ValueError ''min() arg is an empty sequence'')
      | x # rest \<Rightarrow> Inr (foldl (py_min2 F) x rest))"

definition py_max :: "'f float_ops \<Rightarrow> 'f list \<Rightarrow> py_error + 'f" where
  "py_max F xs =
     (case xs of
        [] \<Rightarrow> Inl (ValueError ''max() arg is an empty sequence'')
      | x # rest \<Rightarrow> Inr (foldl (py_max2 F) x rest))"

text \<open>
  One pass of the loop of \<open>compute_uvs\<close>.  The divisor of \<open>u\<close> is the constant
  \<open>2.0 * math.pi\<close>; the divisor of \<open>v\<close> is \<open>span_y\<close>, computed from the vertices.
\<close>

definition uv_of :: "'f float_ops \<Rightarrow> 'f \<Rightarrow> 'f \<Rightarrow> 'f Vec3 \<Rightarrow> py_error + 'f Vec2" where
  "uv_of F min_y span_y vertex =
     (case vertex of (vx, vy, vz) \<Rightarrow>
        let u = fl_add F (fl_lit F 0.5)
                  (fl_div F (fl_atan2 F vz vx) (fl_mul F (fl_lit F 2) (fl_pi F)))
        in (case py_truediv F (fl_sub F vy min_y) span_y of
              Inl e \<Rightarrow> Inl e
            | Inr q \<Rightarrow> Inr (u, fl_sub F (fl_lit F 1) q)))"

definition compute_uvs :: "'f float_ops \<Rightarrow> 'f Vec3 list \<Rightarrow> py_error + 'f Vec2 list" where
  "compute_uvs F vs =
     (case py_min F (map (\<lambda>v. fst (snd v)) vs) of Inl e \<Rightarrow> Inl e | Inr min_y \<Rightarrow>
      case py_max F (map (\<lambda>v. fst (snd v)) vs) of Inl e \<Rightarrow> Inl e | Inr max_y \<Rightarrow>
        let span_y = py_max2 F (fl_sub F max_y min_y) (fl_lit F (1 / 10 ^ 6))
        in map_err (uv_of F min_y span_y) vs)"

section \<open>glTF exporter\<close>

text \<open>
  \<open>struct.pack\<close> with the formats \<open>"<f"\<close> (OverflowError on a float outside the
  float32 range) and \<open>"<H"\<close> (\<open>struct.error\<close> outside \<open>0..65535\<close>), and \<open>b"".join\<close> over a
  generator of packed items.
\<close>

definition le32 :: "32 word \<Rightarrow> byte list" where
  "le32 w = [ucast w, ucast (drop_bit 8 w), ucast (drop_bit 16 w), ucast (drop_bit 24 w)]"

fun pack_f32s :: "'f float_ops \<Rightarrow> 'f list \<Rightarrow> py_error + byte list" where
  "pack_f32s F [] = Inr []"
| "pack_f32s F (x # xs) =
     (case fl_pack32 F x of
        None \<Rightarrow> Inl OverflowError
      | Some w \<Rightarrow> (case pack_f32s F xs of Inl e \<Rightarrow> Inl e | Inr bs \<Rightarrow> Inr (le32 w @ bs)))"

definition pack_H :: "int \<Rightarrow> py_error + byte list" where
  "pack_H idx =
     (if 0 \<le> idx \<and> idx \<le> 65535 then Inr [word_of_int idx, word_of_int (idx div 256)]
      else Inl StructError)"

fun join_packed :: "('a \<Rightarrow> py_error + byte list) \<Rightarrow> 'a list \<Rightarrow> py_error + byte list" where
  "join_packed f [] = Inr []"
| "join_packed f (x # xs) =
     (case f x of Inl e \<Rightarrow> Inl e | Inr b \<Rightarrow>
      case join_packed f xs of Inl e \<Rightarrow> Inl e | Inr bs \<Rightarrow> Inr (b @ bs))"

text \<open>
  \<open>append_blob\<close> is a closure over \<open>buffer\<close> and \<open>buffer_views\<close>; the model passes both as
  a state.  \<open>pad_to\<close> is its while loop; the script calls it with \<open>align\<close> 4 and 2 only.
\<close>

record 'f gltf_buffers =
  buffer :: "byte list"
  buffer_views :: "'f json list"

function pad_to :: "byte list \<Rightarrow> nat \<Rightarrow> byte list" where
  "pad_to buf align =
     (if align \<noteq> 0 \<and> length buf mod align \<noteq> 0 then pad_to (buf @ [0]) align else buf)"
  by pat_completeness auto
termination
proof (relation "measure (\<lambda>(buf, align). (align - length buf mod align) mod align)")
  show "wf (measure (\<lambda>(buf, align). (align - length buf mod align) mod align))" by simp
next
  fix buf :: "byte list" and align :: nat
  assume a: "align \<noteq> 0 \<and> length buf mod align \<noteq> 0"
  let ?r = "length buf mod align"
  have r: "0 < ?r" "?r < align" using a by simp_all
  have "(align - length (buf @ [0]) mod align) mod align < (align - ?r) mod align"
  proof (cases "Suc ?r = align")
    case True
    then have "length (buf @ [0]) mod align = 0" by (simp add: mod_Suc)
    then show ?thesis using r by simp
  next
    case False
    then have "length (buf @ [0]) mod align = Suc ?r" by (simp add: mod_Suc)
    then show ?thesis using r False by simp
  qed
  then show "((buf @ [0], align), (buf, align))
      \<in> measure (\<lambda>(buf, align). (align - length buf mod align) mod align)"
    by simp
qed

definition append_blob :: "'f gltf_buffers \<Rightarrow> byte list \<Rightarrow> int option \<Rightarrow> nat \<Rightarrow> 'f gltf_buffers \<times> int" where
  "append_blob st blob target align =
     (let padded = pad_to (buffer st) align;
          offset = length padded;
          view = JObj ([(''buffer'', JInt 0), (''byteOffset'', JInt (int offset)),
                        (''byteLength'', JInt (int (length blob)))]
                       @ (case target of None \<Rightarrow> [] | Some t \<Rightarrow> [(''target'', JInt t)]));
          views = buffer_views st @ [view]
      in (\<lparr> buffer = padded @ blob, buffer_views = views \<rparr>, int (length views) - 1))"

text \<open>
  \<open>gltf_streams\<close> is \<open>write_gltf\<close> up to the last accessor: the four blobs, their
  buffer views and the four accessors.  \<open>write_gltf\<close> then writes the buffer beside the
  document.
\<close>

definition py_min_int :: "int list \<Rightarrow> py_error + int" where
  "py_min_int xs =
     (case xs of
        [] \<Rightarrow> Inl (ValueError ''min() arg is an empty sequence'')
      | x # rest \<Rightarrow> Inr (foldl min x rest))"

definition py_max_int :: "int list \<Rightarrow> py_error + int" where
  "py_max_int xs =
     (case xs of
        [] \<Rightarrow> Inl (ValueError ''max() arg is an empty sequence'')
      | x # rest \<Rightarrow> Inr (foldl max x rest))"

definition vec3_axis :: "nat \<Rightarrow> 'f Vec3 \<Rightarrow> 'f" where
  "vec3_axis i v = (case v of (v0, v1, v2) \<Rightarrow> if i = 0 then v0 else if i = 1 then v1 else v2)"

definition gltf_streams :: "'f float_ops \<Rightarrow> 'f Vec3 list \<Rightarrow> int list
    \<Rightarrow> py_error + 'f gltf_buffers \<times> 'f json list" where
  "gltf_streams F vs ixs =
     (case compute_normals F vs ixs of Inl e \<Rightarrow> Inl e | Inr normals \<Rightarrow>
      case compute_uvs F vs of Inl e \<Rightarrow> Inl e | Inr uvs \<Rightarrow>
      case join_packed (\<lambda>(a, b, c). pack_f32s F [a, b, c]) vs of Inl e \<Rightarrow> Inl e | Inr pos_blob \<Rightarrow>
      case join_packed (\<lambda>(a, b, c). pack_f32s F [a, b, c]) normals of Inl e \<Rightarrow> Inl e | Inr nrm_blob \<Rightarrow>
      case join_packed (\<lambda>(a, b). pack_f32s F [a, b]) uvs of Inl e \<Rightarrow> Inl e | Inr uv_blob \<Rightarrow>
      case join_packed pack_H ixs of Inl e \<Rightarrow> Inl e | Inr idx_blob \<Rightarrow>
        (case append_blob \<lparr> buffer = [], buffer_views = [] \<rparr> pos_blob (Some 34962) 4 of
           (st1, pos_view) \<Rightarrow>
         case append_blob st1 nrm_blob (Some 34962) 4 of (st2, nrm_view) \<Rightarrow>
         case append_blob st2 uv_blob (Some 34962) 4 of (st3, uv_view) \<Rightarrow>
         case append_blob st3 idx_blob (Some 34963) 2 of (st4, idx_view) \<Rightarrow>
           (case map_err (\<lambda>i. py_min F (map (vec3_axis i) vs)) [0, 1, 2] of
              Inl e \<Rightarrow> Inl e | Inr min_pos \<Rightarrow>
            case map_err (\<lambda>i. py_max F (map (vec3_axis i) vs)) [0, 1, 2] of
              Inl e \<Rightarrow> Inl e | Inr max_pos \<Rightarrow>
            case py_min_int ixs of Inl e \<Rightarrow> Inl e | Inr min_idx \<Rightarrow>
            case py_max_int ixs of Inl e \<Rightarrow> Inl e | Inr max_idx \<Rightarrow>
              Inr (st4,
                [ JObj [(''bufferView'', JInt pos_view), (''componentType'', JInt 5126),
                        (''count'', JInt (int (length vs))), (''type'', JStr ''VEC3''),
                        (''min'', JArr (map JFloat min_pos)), (''max'', JArr (map JFloat max_pos))],
                  JObj [(''bufferView'', JInt nrm_view), (''componentType'', JInt 5126),
                        (''count'', JInt (int (length normals))), (''type'', JStr ''VEC3'')],
                  JObj [(''bufferView'', JInt uv_view), (''componentType'', JInt 5126),
                        (''count'', JInt (int (length uvs))), (''type'', JStr ''VEC2'')],
                  JObj [(''bufferView'', JInt idx_view), (''componentType'', JInt 5123),
                        (''count'', JInt (int (length ixs))), (''type'', JStr ''SCALAR''),
                        (''min'', JArr [JInt min_idx]), (''max'', JArr [JInt max_idx])] ]))))"

definition gltf_document :: "string \<Rightarrow> string \<Rightarrow> 'f gltf_buffers \<Rightarrow> 'f json list \<Rightarrow> 'f json" where
  "gltf_document mesh_name bin_name st accessors =
     JObj [
       (''asset'', JObj [(''version'', JStr ''2.0''),
                         (''generator'', JStr ''generate-viewer-industrial-theme-assets.py'')]),
       (''scene'', JInt 0),
       (''scenes'', JArr [JObj [(''nodes'', JArr [JInt 0])]]),
       (''nodes'', JArr [JObj [(''mesh'', JInt 0), (''name'', JStr (mesh_name @ ''Node''))]]),
       (''meshes'', JArr [JObj [
           (''name'', JStr mesh_name),
           (''primitives'', JArr [JObj [
               (''attributes'', JObj [(''POSITION'', JInt 0), (''NORMAL'', JInt 1),
                                      (''TEXCOORD_0'', JInt 2)]),
               (''indices'', JInt 3)]])]]),
       (''buffers'', JArr [JObj [(''uri'', JStr bin_name),
                                 (''byteLength'', JInt (int (length (buffer st))))]]),
       (''bufferViews'', JArr (buffer_views st)),
       (''accessors'', JArr accessors)]"

definition write_gltf :: "'f runtime \<Rightarrow> py_path filesystem \<Rightarrow> py_path \<Rightarrow> string \<Rightarrow> 'f Vec3 list
    \<Rightarrow> int list \<Rightarrow> py_error + py_path filesystem" where
  "write_gltf R fs path mesh_name vs ixs =
     (case gltf_streams (rt_float R) vs ixs of
        Inl e \<Rightarrow> Inl e
      | Inr (st, accessors) \<Rightarrow>
          let bin_name = path_stem path @ ''.bin''
          in (case path_with_name path bin_name of
                Inl e \<Rightarrow> Inl e
              | Inr bin_path \<Rightarrow>
                  let fs1 = write_bytes fs bin_path (buffer st);
                      gltf = gltf_document mesh_name bin_name st accessors
                  in Inr (write_bytes fs1 path (json_dumps R gltf))))"

section \<open>Theme pack validator\<close>

text \<open>
  An entry of the validator's error list.  The script formats each as a string; the
  model keeps the kind of failure and the values the string is formatted from:
  \<open>VertexBudget path n required\<close> is
  \<open>"{mesh_path}: vertex count {n} < required {required}"\<close>, and so on.
\<close>

datatype verror =
    MissingDirectory py_path
  | MissingPreset py_path
  | MissingMesh py_path
  | GltfParseFailed py_path
  | MissingPosition py_path py_error
  | MissingBuffer py_path string
  | VertexBudget py_path int int
  | MissingTexture py_path
  | InvalidPng py_path py_error
  | TextureTooSmall py_path int int int
  | TextureNotSquare py_path int int

text \<open>
  What \<open>validate_mesh\<close> does with the parsed document, on any JSON value: subscripting
  (\<open>c[k]\<close>), \<open>c.get(k, default)\<close>, iteration, truth value and \<open>int(v)\<close>, each raising
  as Python does on a value of the wrong type.
\<close>

definition py_index_key :: "'f json \<Rightarrow> int option" where
  "py_index_key k =
     (case k of JInt i \<Rightarrow> Some i | JBool b \<Rightarrow> Some (if b then 1 else 0) | _ \<Rightarrow> None)"

definition py_subscript :: "'f json \<Rightarrow> 'f json \<Rightarrow> py_error + 'f json" where
  "py_subscript c k =
     (case c of
        JObj kvs \<Rightarrow>
          (case k of
             JStr s \<Rightarrow> (case map_of kvs s of Some v \<Rightarrow> Inr v | None \<Rightarrow> Inl KeyError)
           | JArr _ \<Rightarrow> Inl TypeError
           | JObj _ \<Rightarrow> Inl TypeError
           | _ \<Rightarrow> Inl KeyError)
      | JArr xs \<Rightarrow>
          (case py_index_key k of Some i \<Rightarrow> py_index xs i | None \<Rightarrow> Inl TypeError)
      | JStr s \<Rightarrow>
          (case py_index_key k of
             Some i \<Rightarrow> (case py_index s i of Inl e \<Rightarrow> Inl e | Inr ch \<Rightarrow> Inr (JStr [ch]))
           | None \<Rightarrow> Inl TypeError)
      | _ \<Rightarrow> Inl TypeError)"

definition py_get :: "'f json \<Rightarrow> string \<Rightarrow> 'f json \<Rightarrow> py_error + 'f json" where
  "py_get c k dflt =
     (case c of
        JObj kvs \<Rightarrow> Inr (case map_of kvs k of Some v \<Rightarrow> v | None \<Rightarrow> dflt)
      | _ \<Rightarrow> Inl AttributeError)"

definition py_iter :: "'f json \<Rightarrow> py_error + 'f json list" where
  "py_iter c =
     (case c of
        JArr xs \<Rightarrow> Inr xs
      | JObj kvs \<Rightarrow> Inr (map (\<lambda>kv. JStr (fst kv)) kvs)
      | JStr s \<Rightarrow> Inr (map (\<lambda>ch. JStr [ch]) s)
      | _ \<Rightarrow> Inl TypeError)"

definition py_truthy :: "'f float_ops \<Rightarrow> 'f json \<Rightarrow> bool" where
  "py_truthy F v =
     (case v of
        JNull \<Rightarrow> False
      | JBool b \<Rightarrow> b
      | JInt i \<Rightarrow> i \<noteq> 0
      | JFloat x \<Rightarrow> \<not> fl_is_zero F x
      | JStr s \<Rightarrow> s \<noteq> []
      | JArr xs \<Rightarrow> xs \<noteq> []
      | JObj kvs \<Rightarrow> kvs \<noteq> [])"

definition py_int :: "'f runtime \<Rightarrow> 'f json \<Rightarrow> py_error + int" where
  "py_int R v =
     (case v of
        JInt i \<Rightarrow> Inr i
      | JBool b \<Rightarrow> Inr (if b then 1 else 0)
      | JFloat x \<Rightarrow> (case int_of_float R x of Some i \<Rightarrow> Inr i | None \<Rightarrow> Inl OverflowError)
      | JStr s \<Rightarrow>
          (case int_of_str R s of
             Some i \<Rightarrow> Inr i
           | None \<Rightarrow> Inl (ValueError ''invalid literal for int() with base 10''))
      | _ \<Rightarrow> Inl TypeError)"

text \<open>
  The second \<open>try\<close> block of \<open>validate_mesh\<close>; any exception in it is caught.  The loop
  over the buffers is outside of both \<open>try\<close> blocks: what it raises leaves
  \<open>validate_mesh\<close>.
\<close>

definition position_count :: "'f runtime \<Rightarrow> 'f json \<Rightarrow> py_error + int" where
  "position_count R gltf =
     (case py_subscript gltf (JStr ''meshes'') of Inl e \<Rightarrow> Inl e | Inr meshes \<Rightarrow>
      case py_subscript meshes (JInt 0) of Inl e \<Rightarrow> Inl e | Inr mesh \<Rightarrow>
      case py_subscript mesh (JStr ''primitives'') of Inl e \<Rightarrow> Inl e | Inr primitives \<Rightarrow>
      case py_subscript primitives (JInt 0) of Inl e \<Rightarrow> Inl e | Inr primitive \<Rightarrow>
      case py_subscript primitive (JStr ''attributes'') of Inl e \<Rightarrow> Inl e | Inr attributes \<Rightarrow>
      case py_subscript attributes (JStr ''POSITION'') of
        Inl e \<Rightarrow> Inl e | Inr position_accessor_index \<Rightarrow>
      case py_subscript gltf (JStr ''accessors'') of Inl e \<Rightarrow> Inl e | Inr accessors \<Rightarrow>
      case py_subscript accessors position_accessor_index of Inl e \<Rightarrow> Inl e | Inr accessor \<Rightarrow>
      case py_subscript accessor (JStr ''count'') of Inl e \<Rightarrow> Inl e | Inr count \<Rightarrow>
        py_int R count)"

fun buffers_loop :: "'f runtime \<Rightarrow> py_path filesystem \<Rightarrow> py_path \<Rightarrow> 'f json list \<Rightarrow> verror list
    \<Rightarrow> py_error + verror list" where
  "buffers_loop R fs path [] errors = Inr errors"
| "buffers_loop R fs path (buf # bufs) errors =
     (case py_get buf ''uri'' JNull of
        Inl e \<Rightarrow> Inl e
      | Inr uri \<Rightarrow>
          if \<not> py_truthy (rt_float R) uri then buffers_loop R fs path bufs errors
          else (case uri of
                  JStr s \<Rightarrow>
                    if \<not> path_exists fs (path_join (path_parent path) s)
                    then buffers_loop R fs path bufs (errors @ [MissingBuffer path s])
                    else buffers_loop R fs path bufs errors
                | _ \<Rightarrow> Inl TypeError))"

definition validate_mesh :: "'f runtime \<Rightarrow> py_path filesystem \<Rightarrow> py_path
    \<Rightarrow> py_error + int \<times> verror list" where
  "validate_mesh R fs path =
     (case (case read_bytes fs path of Inl e \<Rightarrow> None | Inr data \<Rightarrow> json_loads R data) of
        None \<Rightarrow> Inr (0, [GltfParseFailed path])
      | Some gltf \<Rightarrow>
          (case position_count R gltf of
             Inl exc \<Rightarrow> Inr (0, [MissingPosition path exc])
           | Inr vertex_count \<Rightarrow>
               (case py_get gltf ''buffers'' (JArr []) of
                  Inl e \<Rightarrow> Inl e
                | Inr buffers \<Rightarrow>
                    (case py_iter buffers of
                       Inl e \<Rightarrow> Inl e
                     | Inr bufs \<Rightarrow>
                         (case buffers_loop R fs path bufs [] of
                            Inl e \<Rightarrow> Inl e
                          | Inr errors \<Rightarrow> Inr (vertex_count, errors))))))"

text \<open>The profiles, and one pass of each loop of \<open>validate_theme_pack\<close>.\<close>

record ThemeValidationProfile =
  p_name :: string
  p_mesh_suffix :: string
  p_preset_files :: "string list"
  p_min_texture_size :: int
  p_min_vertices :: "(string \<times> int) list"

definition ENTITIES :: "string list" where
  "ENTITIES = [''agent'', ''location'', ''asset'', ''power_plant'', ''power_storage'']"

definition TEXTURE_CHANNELS :: "string list" where
  "TEXTURE_CHANNELS = [''base'', ''normal'', ''metallic_roughness'', ''emissive'']"

definition profile_v1 :: ThemeValidationProfile where
  "profile_v1 = \<lparr>
     p_name = ''v1'',
     p_mesh_suffix = [],
     p_preset_files = [''industrial_default.env'', ''industrial_matte.env'',
                       ''industrial_glossy.env''],
     p_min_texture_size = 256,
     p_min_vertices = [(''agent'', 18), (''location'', 300), (''asset'', 16),
                       (''power_plant'', 30), (''power_storage'', 200)] \<rparr>"

definition profile_v2 :: ThemeValidationProfile where
  "profile_v2 = \<lparr>
     p_name = ''v2'',
     p_mesh_suffix = ''_v2'',
     p_preset_files = [''industrial_v2_default.env'', ''industrial_v2_matte.env'',
                       ''industrial_v2_glossy.env''],
     p_min_texture_size = 512,
     p_min_vertices = [(''agent'', 48), (''location'', 1200), (''asset'', 90),
                       (''power_plant'', 90), (''power_storage'', 900)] \<rparr>"

definition PROFILES :: "(string \<times> ThemeValidationProfile) list" where
  "PROFILES = [(''v1'', profile_v1), (''v2'', profile_v2)]"

definition mesh_path_of :: "py_path \<Rightarrow> ThemeValidationProfile \<Rightarrow> string \<Rightarrow> py_path" where
  "mesh_path_of mesh_dir profile entity =
     path_join mesh_dir (entity @ ''_industrial'' @ p_mesh_suffix profile @ ''.gltf'')"

definition mesh_check :: "'f runtime \<Rightarrow> py_path filesystem \<Rightarrow> py_path \<Rightarrow> ThemeValidationProfile
    \<Rightarrow> string \<Rightarrow> py_error + verror list" where
  "mesh_check R fs mesh_dir profile entity =
     (let mesh_path = mesh_path_of mesh_dir profile entity
      in if \<not> path_exists fs mesh_path then Inr [MissingMesh mesh_path]
         else (case validate_mesh R fs mesh_path of
                 Inl e \<Rightarrow> Inl e
               | Inr (n, mesh_errors) \<Rightarrow>
                   (case map_of (p_min_vertices profile) entity of
                      None \<Rightarrow> Inl KeyError
                    | Some required_vertices \<Rightarrow>
                        Inr (mesh_errors
                             @ (if n < required_vertices
                                then [VertexBudget mesh_path n required_vertices]
                                else [])))))"

definition texture_check :: "py_path filesystem \<Rightarrow> py_path \<Rightarrow> int \<Rightarrow> string \<Rightarrow> string
    \<Rightarrow> verror list" where
  "texture_check fs texture_dir min_size entity channel =
     (let texture_path = path_join texture_dir (entity @ ''_'' @ channel @ ''.png'')
      in if \<not> path_exists fs texture_path then [MissingTexture texture_path]
         else (case read_png_size fs texture_path of
                 Inl exc \<Rightarrow> [InvalidPng texture_path exc]
               | Inr (width, height) \<Rightarrow>
                   (if width < min_size \<or> height < min_size
                    then [TextureTooSmall texture_path width height min_size] else [])
                   @ (if width \<noteq> height
                      then [TextureNotSquare texture_path width height] else [])))"

fun entities_loop :: "'f runtime \<Rightarrow> py_path filesystem \<Rightarrow> py_path \<Rightarrow> py_path
    \<Rightarrow> ThemeValidationProfile \<Rightarrow> int \<Rightarrow> string list \<Rightarrow> verror list
    \<Rightarrow> py_error + verror list" where
  "entities_loop R fs mesh_dir texture_dir profile min_size [] errors = Inr errors"
| "entities_loop R fs mesh_dir texture_dir profile min_size (entity # rest) errors =
     (case mesh_check R fs mesh_dir profile entity of
        Inl e \<Rightarrow> Inl e
      | Inr mesh_errors \<Rightarrow>
          entities_loop R fs mesh_dir texture_dir profile min_size rest
            (errors @ mesh_errors
             @ concat (map (texture_check fs texture_dir min_size entity) TEXTURE_CHANNELS)))"

definition validate_theme_pack :: "'f runtime \<Rightarrow> py_path filesystem \<Rightarrow> py_path
    \<Rightarrow> ThemeValidationProfile \<Rightarrow> int \<Rightarrow> py_error + verror list" where
  "validate_theme_pack R fs theme_dir profile min_size =
     (let mesh_dir = path_join theme_dir ''meshes'';
          texture_dir = path_join theme_dir ''textures'';
          preset_dir = path_join theme_dir ''presets'';
          dir_errors = concat (map (\<lambda>directory.
              if \<not> path_exists fs directory then [MissingDirectory directory] else [])
              [mesh_dir, texture_dir, preset_dir]);
          preset_errors = concat (map (\<lambda>preset.
              if \<not> path_exists fs (path_join preset_dir preset)
              then [MissingPreset (path_join preset_dir preset)] else [])
              (p_preset_files profile))
      in entities_loop R fs mesh_dir texture_dir profile min_size ENTITIES
           (dir_errors @ preset_errors))"

text \<open>
  \<open>main\<close>, from the parsed arguments: the exit code and the lines printed.  A profile
  name outside of \<open>PROFILES\<close> is refused by argparse with exit code 2.  An exception
  that leaves \<open>main\<close> ends the process with a traceback.
\<close>

datatype out_line =
    FailedHeader
  | ErrorLine verror
  | PassedLine py_path string int

definition path_of_string :: "string \<Rightarrow> py_path" where
  "path_of_string s = path_join \<lparr> is_abs = False, parts = [] \<rparr> s"

definition main :: "'f runtime \<Rightarrow> py_path filesystem \<Rightarrow> string \<Rightarrow> string \<Rightarrow> int
    \<Rightarrow> py_error + int \<times> out_line list" where
  "main R fs arg_theme_dir arg_profile arg_min_texture_size =
     (case map_of PROFILES arg_profile of
        None \<Rightarrow> Inr (2, [])
      | Some profile \<Rightarrow>
          let min_size = (if arg_min_texture_size > 0 then arg_min_texture_size
                          else p_min_texture_size profile);
              theme_dir = path_of_string arg_theme_dir
          in (case validate_theme_pack R fs theme_dir profile min_size of
                Inl e \<Rightarrow> Inl e
              | Inr errors \<Rightarrow>
                  if errors \<noteq> [] then Inr (1, FailedHeader # map ErrorLine errors)
                  else Inr (0, [PassedLine theme_dir (p_name profile) min_size])))"

section \<open>The exporter: when it succeeds and what it writes\<close>

text \<open>
  \<open>guards_exclude_zero\<close> states what the two guards of the source rely on: a float that
  is not \<open><= 1e-8\<close> is not zero, and \<open>max(x, 1e-6)\<close> is never zero.  Both hold for
  IEEE doubles.
\<close>

definition guards_exclude_zero :: "'f float_ops \<Rightarrow> bool" where
  "guards_exclude_zero F \<longleftrightarrow>
     (\<forall>l. \<not> fl_le F l (fl_lit F (1 / 10 ^ 8)) \<longrightarrow> \<not> fl_is_zero F l)
     \<and> (\<forall>x. \<not> fl_is_zero F (py_max2 F x (fl_lit F (1 / 10 ^ 6))))"

lemma py_index_ok: "0 \<le> i \<Longrightarrow> i < int (length xs) \<Longrightarrow> py_index xs i = Inr (xs ! nat i)"
  by (simp add: py_index_def Let_def)

lemma py_setitem_ok:
  "0 \<le> i \<Longrightarrow> i < int (length xs) \<Longrightarrow> py_setitem xs i v = Inr (xs[nat i := v])"
  by (simp add: py_setitem_def Let_def)

lemma py_setitem_length: "py_setitem xs i v = Inr ys \<Longrightarrow> length ys = length xs"
  by (auto simp add: py_setitem_def Let_def split: if_splits)

lemma normals_loop_length:
  "normals_loop F vs ixs normals = Inr ns \<Longrightarrow> length ns = length normals"
proof (induction F vs ixs normals rule: normals_loop.induct)
  case (4 F vs i0 i1 i2 rest normals)
  from "4.prems" obtain p0 p1 p2 n0 normals0 n1 normals1 n2 normals2 where
    steps: "py_index vs i0 = Inr p0" "py_index vs i1 = Inr p1" "py_index vs i2 = Inr p2"
      "py_index normals i0 = Inr n0"
      "py_setitem normals i0 (add3 F n0 (cross3 F (sub3 F p1 p0) (sub3 F p2 p0))) = Inr normals0"
      "py_index normals0 i1 = Inr n1"
      "py_setitem normals0 i1 (add3 F n1 (cross3 F (sub3 F p1 p0) (sub3 F p2 p0))) = Inr normals1"
      "py_index normals1 i2 = Inr n2"
      "py_setitem normals1 i2 (add3 F n2 (cross3 F (sub3 F p1 p0) (sub3 F p2 p0))) = Inr normals2"
    and rest: "normals_loop F vs rest normals2 = Inr ns"
    by (auto simp add: Let_def split: sum.splits)
  have "length ns = length normals2"
    using "4.IH" [OF steps(1-3) refl steps(4-9) rest] .
  then show ?case
    using py_setitem_length [OF steps(5)] py_setitem_length [OF steps(7)]
      py_setitem_length [OF steps(9)] by simp
qed simp_all

lemma normals_loop_ok:
  "length normals = length vs \<Longrightarrow> length ixs mod 3 = 0
   \<Longrightarrow> \<forall>i\<in>set ixs. 0 \<le> i \<and> i < int (length vs)
   \<Longrightarrow> \<exists>ns. normals_loop F vs ixs normals = Inr ns"
proof (induction F vs ixs normals rule: normals_loop.induct)
  case (4 F vs i0 i1 i2 rest normals)
  let ?face = "cross3 F (sub3 F (vs ! nat i1) (vs ! nat i0)) (sub3 F (vs ! nat i2) (vs ! nat i0))"
  let ?n0 = "normals[nat i0 := add3 F (normals ! nat i0) ?face]"
  let ?n1 = "?n0[nat i1 := add3 F (?n0 ! nat i1) ?face]"
  let ?n2 = "?n1[nat i2 := add3 F (?n1 ! nat i2) ?face]"
  have r: "0 \<le> i0" "i0 < int (length vs)" "0 \<le> i1" "i1 < int (length vs)"
    "0 \<le> i2" "i2 < int (length vs)"
    using "4.prems"(3) by simp_all
  have len: "length normals = length vs" by (rule "4.prems"(1))
  have s1: "py_index vs i0 = Inr (vs ! nat i0)" "py_index vs i1 = Inr (vs ! nat i1)"
    "py_index vs i2 = Inr (vs ! nat i2)"
    using r by (simp_all add: py_index_ok)
  have s2: "py_index normals i0 = Inr (normals ! nat i0)"
    "py_setitem normals i0 (add3 F (normals ! nat i0) ?face) = Inr ?n0"
    "py_index ?n0 i1 = Inr (?n0 ! nat i1)"
    "py_setitem ?n0 i1 (add3 F (?n0 ! nat i1) ?face) = Inr ?n1"
    "py_index ?n1 i2 = Inr (?n1 ! nat i2)"
    "py_setitem ?n1 i2 (add3 F (?n1 ! nat i2) ?face) = Inr ?n2"
    using r len by (simp_all add: py_index_ok py_setitem_ok)
  have m: "length rest mod 3 = 0"
    using "4.prems"(2) by (simp add: mod_Suc split: if_splits)
  have "\<exists>ns. normals_loop F vs rest ?n2 = Inr ns"
    using "4.IH" [OF s1 refl s2] len m "4.prems"(3) by simp
  then show ?case
    by (simp add: s1 s2 Let_def)
qed simp_all

lemma map_err_ok:
  "\<forall>x\<in>set xs. \<exists>y. f x = Inr y \<Longrightarrow> \<exists>ys. map_err f xs = Inr ys"
  by (induction xs) auto

lemma map_err_length: "map_err f xs = Inr ys \<Longrightarrow> length ys = length xs"
  by (induction xs arbitrary: ys) (auto split: sum.splits)

lemma map_err_set: "map_err f xs = Inr ys \<Longrightarrow> y \<in> set ys \<Longrightarrow> \<exists>x\<in>set xs. f x = Inr y"
  by (induction xs arbitrary: ys) (auto split: sum.splits)

lemma normalize3_ok: "guards_exclude_zero F \<Longrightarrow> \<exists>n. normalize3 F v = Inr n"
  by (cases v) (auto simp add: guards_exclude_zero_def normalize3_def Let_def py_truediv_def)

lemma compute_normals_length: "compute_normals F vs ixs = Inr ns \<Longrightarrow> length ns = length vs"
  by (auto simp add: compute_normals_def split: sum.splits
      dest!: normals_loop_length map_err_length)

lemma compute_normals_ok:
  assumes "guards_exclude_zero F" "length ixs mod 3 = 0"
    "\<forall>i\<in>set ixs. 0 \<le> i \<and> i < int (length vs)"
  shows "\<exists>ns. compute_normals F vs ixs = Inr ns"
proof -
  obtain raw where raw: "normals_loop F vs ixs (map (\<lambda>_. (fl_lit F 0, fl_lit F 0, fl_lit F 0)) vs) = Inr raw"
    using normals_loop_ok [of "map (\<lambda>_. (fl_lit F 0, fl_lit F 0, fl_lit F 0)) vs" vs ixs F] assms
    by auto
  obtain ns where "map_err (normalize3 F) raw = Inr ns"
    using map_err_ok [of raw "normalize3 F"] normalize3_ok [OF assms(1)] by blast
  then show ?thesis by (simp add: compute_normals_def raw)
qed

lemma py_min_nonempty: "xs \<noteq> [] \<Longrightarrow> \<exists>m. py_min F xs = Inr m"
  by (cases xs) (simp_all add: py_min_def)

lemma py_max_nonempty: "xs \<noteq> [] \<Longrightarrow> \<exists>m. py_max F xs = Inr m"
  by (cases xs) (simp_all add: py_max_def)

lemma py_min_Inr: "py_min F xs = Inr m \<Longrightarrow> xs \<noteq> []"
  by (cases xs) (simp_all add: py_min_def)

lemma compute_uvs_length: "compute_uvs F vs = Inr uvs \<Longrightarrow> length uvs = length vs"
  by (auto simp add: compute_uvs_def Let_def split: sum.splits dest!: map_err_length)

lemma compute_uvs_nonempty: "compute_uvs F vs = Inr uvs \<Longrightarrow> vs \<noteq> []"
  by (auto simp add: compute_uvs_def Let_def split: sum.splits dest!: py_min_Inr)

lemma compute_uvs_ok:
  assumes "guards_exclude_zero F" "vs \<noteq> []"
  shows "\<exists>uvs. compute_uvs F vs = Inr uvs"
proof -
  obtain min_y where mn: "py_min F (map (\<lambda>v. fst (snd v)) vs) = Inr min_y"
    using py_min_nonempty [of "map (\<lambda>v. fst (snd v)) vs" F] assms(2) by auto
  obtain max_y where mx: "py_max F (map (\<lambda>v. fst (snd v)) vs) = Inr max_y"
    using py_max_nonempty [of "map (\<lambda>v. fst (snd v)) vs" F] assms(2) by auto
  let ?span = "py_max2 F (fl_sub F max_y min_y) (fl_lit F (1 / 10 ^ 6))"
  have "\<forall>v\<in>set vs. \<exists>uv. uv_of F min_y ?span v = Inr uv"
    using assms(1) by (auto simp add: uv_of_def guards_exclude_zero_def py_truediv_def Let_def)
  then obtain uvs where "map_err (uv_of F min_y ?span) vs = Inr uvs"
    using map_err_ok by blast
  then show ?thesis by (simp add: compute_uvs_def mn mx Let_def)
qed

declare pad_to.simps [simp del]

lemma pack_f32s_length: "pack_f32s F xs = Inr bs \<Longrightarrow> length bs = 4 * length xs"
  by (induction xs arbitrary: bs) (auto simp add: le32_def split: option.splits sum.splits)

lemma pack_f32s_ok: "\<forall>x\<in>set xs. fl_pack32 F x \<noteq> None \<Longrightarrow> \<exists>bs. pack_f32s F xs = Inr bs"
  by (induction xs) auto

lemma pack_H_length: "pack_H idx = Inr b \<Longrightarrow> length b = 2"
  by (auto simp add: pack_H_def split: if_splits)

lemma join_packed_length:
  "(\<And>x b. f x = Inr b \<Longrightarrow> length b = k) \<Longrightarrow> join_packed f xs = Inr bs
   \<Longrightarrow> length bs = k * length xs"
  by (induction xs arbitrary: bs) (auto split: sum.splits)

lemma join_packed_ok:
  "\<forall>x\<in>set xs. \<exists>b. f x = Inr b \<Longrightarrow> \<exists>bs. join_packed f xs = Inr bs"
  by (induction xs) auto

lemma pad_to_aligned: "length buf mod align = 0 \<Longrightarrow> pad_to buf align = buf"
  by (subst pad_to.simps) simp


definition buffer_view :: "nat \<Rightarrow> nat \<Rightarrow> int \<Rightarrow> 'f json" where
  "buffer_view offset len target =
     JObj [(''buffer'', JInt 0), (''byteOffset'', JInt (int offset)),
           (''byteLength'', JInt (int len)), (''target'', JInt target)]"

lemma append_blob_aligned:
  "length (buffer st) mod align = 0 \<Longrightarrow>
   append_blob st blob (Some t) align =
     (\<lparr> buffer = buffer st @ blob,
        buffer_views = buffer_views st @ [buffer_view (length (buffer st)) (length blob) t] \<rparr>,
      int (length (buffer_views st)))"
  by (simp add: append_blob_def pad_to_aligned buffer_view_def Let_def)


definition mesh_exportable :: "'f Vec3 list \<Rightarrow> int list \<Rightarrow> bool" where
  "mesh_exportable vs ixs \<longleftrightarrow>
     vs \<noteq> [] \<and> ixs \<noteq> [] \<and> length ixs mod 3 = 0
     \<and> (\<forall>i\<in>set ixs. 0 \<le> i \<and> i < int (length vs) \<and> i \<le> 65535)"

definition packable :: "'f float_ops \<Rightarrow> 'f list \<Rightarrow> bool" where
  "packable F xs \<longleftrightarrow> (\<forall>x\<in>set xs. fl_pack32 F x \<noteq> None)"

definition floats_packable :: "'f float_ops \<Rightarrow> 'f Vec3 list \<Rightarrow> int list \<Rightarrow> bool" where
  "floats_packable F vs ixs \<longleftrightarrow>
     (\<forall>(a, b, c)\<in>set vs. packable F [a, b, c])
     \<and> (\<forall>normals. compute_normals F vs ixs = Inr normals
           \<longrightarrow> (\<forall>(a, b, c)\<in>set normals. packable F [a, b, c]))
     \<and> (\<forall>uvs. compute_uvs F vs = Inr uvs \<longrightarrow> (\<forall>(a, b)\<in>set uvs. packable F [a, b]))"

lemma pack_f32s_packable: "packable F xs \<Longrightarrow> \<exists>bs. pack_f32s F xs = Inr bs"
  by (simp add: packable_def pack_f32s_ok)

lemma py_min_int_nonempty: "xs \<noteq> [] \<Longrightarrow> \<exists>m. py_min_int xs = Inr m"
  by (cases xs) (simp_all add: py_min_int_def)

lemma py_max_int_nonempty: "xs \<noteq> [] \<Longrightarrow> \<exists>m. py_max_int xs = Inr m"
  by (cases xs) (simp_all add: py_max_int_def)

lemma gltf_streams_ok:
  assumes mesh: "mesh_exportable vs ixs"
    and guards: "guards_exclude_zero F"
    and packs: "floats_packable F vs ixs"
  obtains pos nrm uv idx rest a1 a2 a3 where
    "length pos = 12 * length vs" "length nrm = 12 * length vs"
    "length uv = 8 * length vs" "length idx = 2 * length ixs"
    "gltf_streams F vs ixs =
       Inr (\<lparr> buffer = pos @ nrm @ uv @ idx,
              buffer_views =
                [buffer_view 0 (length pos) 34962,
                 buffer_view (length pos) (length nrm) 34962,
                 buffer_view (length pos + length nrm) (length uv) 34962,
                 buffer_view (length pos + length nrm + length uv) (length idx) 34963] \<rparr>,
            [JObj ((''bufferView'', JInt 0) # (''componentType'', JInt 5126)
                   # (''count'', JInt (int (length vs))) # rest), a1, a2, a3])"
proof -
  have ne: "vs \<noteq> []" "ixs \<noteq> []" and m3: "length ixs mod 3 = 0"
    and rng: "\<forall>i\<in>set ixs. 0 \<le> i \<and> i < int (length vs)"
    and u16: "\<forall>i\<in>set ixs. 0 \<le> i \<and> i \<le> 65535"
    using mesh by (simp_all add: mesh_exportable_def)
  obtain normals where n: "compute_normals F vs ixs = Inr normals"
    using compute_normals_ok [OF guards m3 rng] by auto
  obtain uvs where u: "compute_uvs F vs = Inr uvs"
    using compute_uvs_ok [OF guards ne(1)] by auto
  have ln: "length normals = length vs" by (rule compute_normals_length [OF n])
  have lu: "length uvs = length vs" by (rule compute_uvs_length [OF u])
  have pv: "\<forall>v\<in>set vs. \<exists>b. (\<lambda>(a, b, c). pack_f32s F [a, b, c]) v = Inr b"
  proof (intro ballI)
    fix v assume vin: "v \<in> set vs"
    have "packable F [fst v, fst (snd v), snd (snd v)]"
      using packs vin  by (auto simp add: floats_packable_def case_prod_beta)
    from pack_f32s_packable [OF this] show "\<exists>b. (\<lambda>(a, b, c). pack_f32s F [a, b, c]) v = Inr b"
      by (simp only: case_prod_beta)
  qed
  have pn: "\<forall>v\<in>set normals. \<exists>b. (\<lambda>(a, b, c). pack_f32s F [a, b, c]) v = Inr b"
  proof (intro ballI)
    fix v assume vin: "v \<in> set normals"
    have "packable F [fst v, fst (snd v), snd (snd v)]"
      using packs vin n by (auto simp add: floats_packable_def case_prod_beta)
    from pack_f32s_packable [OF this] show "\<exists>b. (\<lambda>(a, b, c). pack_f32s F [a, b, c]) v = Inr b"
      by (simp only: case_prod_beta)
  qed
  have pu: "\<forall>v\<in>set uvs. \<exists>b. (\<lambda>(a, b). pack_f32s F [a, b]) v = Inr b"
  proof (intro ballI)
    fix v assume vin: "v \<in> set uvs"
    have "packable F [fst v, snd v]"
      using packs vin u by (auto simp add: floats_packable_def case_prod_beta)
    from pack_f32s_packable [OF this] show "\<exists>b. (\<lambda>(a, b). pack_f32s F [a, b]) v = Inr b"
      by (simp only: case_prod_beta)
  qed
  have pi: "\<forall>i\<in>set ixs. \<exists>b. pack_H i = Inr b"
    using u16 by (simp add: pack_H_def)
  obtain pos where pos: "join_packed (\<lambda>(a, b, c). pack_f32s F [a, b, c]) vs = Inr pos"
    using join_packed_ok [OF pv] by auto
  obtain nrm where nrm: "join_packed (\<lambda>(a, b, c). pack_f32s F [a, b, c]) normals = Inr nrm"
    using join_packed_ok [OF pn] by auto
  obtain uv where uv: "join_packed (\<lambda>(a, b). pack_f32s F [a, b]) uvs = Inr uv"
    using join_packed_ok [OF pu] by auto
  obtain idx where idx: "join_packed pack_H ixs = Inr idx"
    using join_packed_ok [OF pi] by auto
  have l3: "length b = 12" if "(\<lambda>(a, b, c). pack_f32s F [a, b, c]) x = Inr b" for x b
  proof -
    from that have "pack_f32s F [fst x, fst (snd x), snd (snd x)] = Inr b"
      by (simp only: case_prod_beta)
    from pack_f32s_length [OF this] show ?thesis by simp
  qed
  have l2: "length b = 8" if "(\<lambda>(a, b). pack_f32s F [a, b]) x = Inr b" for x b
  proof -
    from that have "pack_f32s F [fst x, snd x] = Inr b"
      by (simp only: case_prod_beta)
    from pack_f32s_length [OF this] show ?thesis by simp
  qed
  have lpos: "length pos = 12 * length vs"
    by (rule join_packed_length [OF l3 pos])
  have lnrm: "length nrm = 12 * length vs"
    using join_packed_length [OF l3 nrm] ln by simp
  have luv: "length uv = 8 * length vs"
    using join_packed_length [OF l2 uv] lu by simp
  have lidx: "length idx = 2 * length ixs"
    by (rule join_packed_length [OF pack_H_length idx])
  have al1: "length pos mod 4 = 0" unfolding lpos by presburger
  have al2: "(length pos + length nrm) mod 4 = 0" unfolding lpos lnrm by presburger
  have al3: "(length pos + (length nrm + length uv)) mod 2 = 0"
    unfolding lpos lnrm luv by presburger
  obtain min_pos where mn: "map_err (\<lambda>i. py_min F (map (vec3_axis i) vs)) [0, 1, 2] = Inr min_pos"
    using map_err_ok [of "[0, 1, 2]" "\<lambda>i. py_min F (map (vec3_axis i) vs)"]
      py_min_nonempty [of _ F] ne(1) by auto
  obtain max_pos where mx: "map_err (\<lambda>i. py_max F (map (vec3_axis i) vs)) [0, 1, 2] = Inr max_pos"
    using map_err_ok [of "[0, 1, 2]" "\<lambda>i. py_max F (map (vec3_axis i) vs)"]
      py_max_nonempty [of _ F] ne(1) by auto
  obtain min_idx where mni: "py_min_int ixs = Inr min_idx"
    using py_min_int_nonempty [OF ne(2)] by auto
  obtain max_idx where mxi: "py_max_int ixs = Inr max_idx"
    using py_max_int_nonempty [OF ne(2)] by auto
  have b1: "append_blob \<lparr> buffer = [], buffer_views = [] \<rparr> pos (Some 34962) 4 =
      (\<lparr> buffer = pos, buffer_views = [buffer_view 0 (length pos) 34962] \<rparr>, 0)"
    by (simp add: append_blob_aligned)
  have b2: "append_blob \<lparr> buffer = pos, buffer_views = [buffer_view 0 (length pos) 34962] \<rparr>
        nrm (Some 34962) 4 =
      (\<lparr> buffer = pos @ nrm,
         buffer_views = [buffer_view 0 (length pos) 34962,
                         buffer_view (length pos) (length nrm) 34962] \<rparr>, 1)"
    using al1 by (simp add: append_blob_aligned)
  have b3: "append_blob \<lparr> buffer = pos @ nrm,
         buffer_views = [buffer_view 0 (length pos) 34962,
                         buffer_view (length pos) (length nrm) 34962] \<rparr> uv (Some 34962) 4 =
      (\<lparr> buffer = pos @ nrm @ uv,
         buffer_views = [buffer_view 0 (length pos) 34962,
                         buffer_view (length pos) (length nrm) 34962,
                         buffer_view (length pos + length nrm) (length uv) 34962] \<rparr>, 2)"
    using al2 by (simp add: append_blob_aligned)
  have b4: "append_blob \<lparr> buffer = pos @ nrm @ uv,
         buffer_views = [buffer_view 0 (length pos) 34962,
                         buffer_view (length pos) (length nrm) 34962,
                         buffer_view (length pos + length nrm) (length uv) 34962] \<rparr>
        idx (Some 34963) 2 =
      (\<lparr> buffer = pos @ nrm @ uv @ idx,
         buffer_views = [buffer_view 0 (length pos) 34962,
                         buffer_view (length pos) (length nrm) 34962,
                         buffer_view (length pos + length nrm) (length uv) 34962,
                         buffer_view (length pos + length nrm + length uv) (length idx) 34963] \<rparr>,
       3)"
    using al3 by (simp add: append_blob_aligned add.assoc)
  have "gltf_streams F vs ixs =
       Inr (\<lparr> buffer = pos @ nrm @ uv @ idx,
              buffer_views =
                [buffer_view 0 (length pos) 34962,
                 buffer_view (length pos) (length nrm) 34962,
                 buffer_view (length pos + length nrm) (length uv) 34962,
                 buffer_view (length pos + length nrm + length uv) (length idx) 34963] \<rparr>,
            [JObj ((''bufferView'', JInt 0) # (''componentType'', JInt 5126)
                   # (''count'', JInt (int (length vs)))
                   # [(''type'', JStr ''VEC3''), (''min'', JArr (map JFloat min_pos)),
                      (''max'', JArr (map JFloat max_pos))]),
             JObj [(''bufferView'', JInt 1), (''componentType'', JInt 5126),
                   (''count'', JInt (int (length normals))), (''type'', JStr ''VEC3'')],
             JObj [(''bufferView'', JInt 2), (''componentType'', JInt 5126),
                   (''count'', JInt (int (length uvs))), (''type'', JStr ''VEC2'')],
             JObj [(''bufferView'', JInt 3), (''componentType'', JInt 5123),
                   (''count'', JInt (int (length ixs))), (''type'', JStr ''SCALAR''),
                   (''min'', JArr [JInt min_idx]), (''max'', JArr [JInt max_idx])]])"
    unfolding gltf_streams_def
    by (simp only: n u pos nrm uv idx sum.case b1 b2 b3 b4 prod.case mn mx mni mxi)
  then show ?thesis
    using lpos lnrm luv lidx by (rule that [rotated 4])
qed

definition json_round_trips :: "'f runtime \<Rightarrow> 'f json \<Rightarrow> bool" where
  "json_round_trips R doc \<longleftrightarrow> json_loads R (json_dumps R doc) = Some doc"

lemma split_slash_length: "w \<in> set (split_slash s) \<Longrightarrow> length w \<le> length s"
proof (induction s arbitrary: w)
  case Nil
  then show ?case by simp
next
  case (Cons c cs)
  show ?case
  proof (cases "c = CHR ''/''")
    case True
    with Cons.prems have "w = [] \<or> w \<in> set (split_slash cs)" by simp
    then show ?thesis using Cons.IH by fastforce
  next
    case False
    show ?thesis
    proof (cases "split_slash cs")
      case Nil
      with False Cons.prems show ?thesis by simp
    next
      case (Cons x xs)
      with False Cons.prems have "w = c # x \<or> w \<in> set xs" by simp
      moreover have "length x \<le> length cs" "\<forall>y\<in>set xs. length y \<le> length cs"
        using Cons.IH Cons by simp_all
      ultimately show ?thesis by auto
    qed
  qed
qed

lemma path_segments_single_not_abs:
  assumes "path_segments s = [s]"
  shows "\<not> (s \<noteq> [] \<and> hd s = CHR ''/'')"
proof
  assume "s \<noteq> [] \<and> hd s = CHR ''/''"
  then obtain t where s: "s = CHR ''/'' # t" by (cases s) auto
  have "s \<in> set (path_segments s)" using assms by simp
  then have "s \<in> set (split_slash s)" by (simp add: path_segments_def)
  then have "s \<in> set (split_slash t)" using s by auto
  then have "length s \<le> length t" by (rule split_slash_length)
  then show False using s by simp
qed

lemma with_name_is_join:
  assumes "path_with_name path name = Inr q"
  shows "path_join (path_parent path) name = q"
proof -
  have seg: "path_segments name = [name]"
    using assms by (auto simp add: path_with_name_def split: if_splits)
  have q: "q = path\<lparr> parts := butlast (parts path) @ [name] \<rparr>"
    using assms by (auto simp add: path_with_name_def split: if_splits)
  have "\<not> (name \<noteq> [] \<and> hd name = CHR ''/'')"
    by (rule path_segments_single_not_abs [OF seg])
  then have "path_join (path_parent path) name
      = (path_parent path)\<lparr> parts := parts (path_parent path) @ path_segments name \<rparr>"
    unfolding path_join_def by (rule if_not_P)
  then show ?thesis
    by (simp add: path_parent_def seg q)
qed

lemma position_count_document:
  "position_count R (gltf_document mesh_name bin_name st
      [JObj ((''bufferView'', JInt 0) # (''componentType'', JInt 5126)
             # (''count'', JInt n) # rest), a1, a2, a3]) = Inr n"
  by (simp add: position_count_def gltf_document_def py_subscript_def py_index_def
      py_index_key_def py_int_def Let_def)

lemma buffers_document:
  "py_get (gltf_document mesh_name bin_name st accessors) ''buffers'' (JArr []) =
     Inr (JArr [JObj [(''uri'', JStr bin_name),
                      (''byteLength'', JInt (int (length (buffer st))))]])"
  by (simp add: py_get_def gltf_document_def)

lemma write_gltf_ok:
  assumes mesh: "mesh_exportable vs ixs"
    and guards: "guards_exclude_zero (rt_float R)"
    and packs: "floats_packable (rt_float R) vs ixs"
    and bin: "path_with_name path (path_stem path @ ''.bin'') = Inr bin_path"
  obtains st accessors pos nrm uv idx rest a1 a2 a3 where
    "length pos = 12 * length vs" "length nrm = 12 * length vs"
    "length uv = 8 * length vs" "length idx = 2 * length ixs"
    "buffer st = pos @ nrm @ uv @ idx"
    "buffer_views st =
       [buffer_view 0 (length pos) 34962,
        buffer_view (length pos) (length nrm) 34962,
        buffer_view (length pos + length nrm) (length uv) 34962,
        buffer_view (length pos + length nrm + length uv) (length idx) 34963]"
    "accessors = [JObj ((''bufferView'', JInt 0) # (''componentType'', JInt 5126)
                   # (''count'', JInt (int (length vs))) # rest), a1, a2, a3]"
    "gltf_streams (rt_float R) vs ixs = Inr (st, accessors)"
    "write_gltf R fs path mesh_name vs ixs =
       Inr (write_bytes (write_bytes fs bin_path (buffer st)) path
             (json_dumps R (gltf_document mesh_name (path_stem path @ ''.bin'') st accessors)))"
proof -
  obtain pos nrm uv idx rest a1 a2 a3 where
    l: "length pos = 12 * length vs" "length nrm = 12 * length vs"
      "length uv = 8 * length vs" "length idx = 2 * length ixs"
    and g: "gltf_streams (rt_float R) vs ixs =
       Inr (\<lparr> buffer = pos @ nrm @ uv @ idx,
              buffer_views =
                [buffer_view 0 (length pos) 34962,
                 buffer_view (length pos) (length nrm) 34962,
                 buffer_view (length pos + length nrm) (length uv) 34962,
                 buffer_view (length pos + length nrm + length uv) (length idx) 34963] \<rparr>,
            [JObj ((''bufferView'', JInt 0) # (''componentType'', JInt 5126)
                   # (''count'', JInt (int (length vs))) # rest), a1, a2, a3])"
    by (rule gltf_streams_ok [OF mesh guards packs])
  define st :: "'a gltf_buffers" where "st = \<lparr> buffer = pos @ nrm @ uv @ idx,
              buffer_views =
                [buffer_view 0 (length pos) 34962,
                 buffer_view (length pos) (length nrm) 34962,
                 buffer_view (length pos + length nrm) (length uv) 34962,
                 buffer_view (length pos + length nrm + length uv) (length idx) 34963] \<rparr>"
  define accessors :: "'a json list" where
    "accessors = [JObj ((''bufferView'', JInt 0) # (''componentType'', JInt 5126)
                   # (''count'', JInt (int (length vs))) # rest), a1, a2, a3]"
  have g': "gltf_streams (rt_float R) vs ixs = Inr (st, accessors)"
    using g by (simp only: st_def accessors_def)
  have w: "write_gltf R fs path mesh_name vs ixs =
       Inr (write_bytes (write_bytes fs bin_path (buffer st)) path
             (json_dumps R (gltf_document mesh_name (path_stem path @ ''.bin'') st accessors)))"
    by (simp add: write_gltf_def g' bin Let_def)
  show ?thesis
    by (rule that [OF l _ _ accessors_def g' w]) (simp_all add: st_def)
qed

lemma validate_written_gltf:
  assumes bin: "path_with_name path bin_name = Inr bin_path"
    and ne: "bin_name \<noteq> []"
    and rt: "json_round_trips R
          (gltf_document mesh_name bin_name st
            [JObj ((''bufferView'', JInt 0) # (''componentType'', JInt 5126)
                   # (''count'', JInt n) # rest), a1, a2, a3])"
  shows "validate_mesh R
          (write_bytes (write_bytes fs bin_path buf) path
             (json_dumps R (gltf_document mesh_name bin_name st
                [JObj ((''bufferView'', JInt 0) # (''componentType'', JInt 5126)
                       # (''count'', JInt n) # rest), a1, a2, a3])))
          path = Inr (n, [])"
proof -
  let ?doc = "gltf_document mesh_name bin_name st
                [JObj ((''bufferView'', JInt 0) # (''componentType'', JInt 5126)
                       # (''count'', JInt n) # rest), a1, a2, a3]"
  let ?fs = "write_bytes (write_bytes fs bin_path buf) path (json_dumps R ?doc)"
  have rd: "read_bytes ?fs path = Inr (json_dumps R ?doc)"
    by (simp add: read_bytes_def write_bytes_def)
  have ld: "json_loads R (json_dumps R ?doc) = Some ?doc"
    using rt by (simp add: json_round_trips_def)
  have ex: "path_exists ?fs (path_join (path_parent path) bin_name)"
    by (simp add: with_name_is_join [OF bin] path_exists_def write_bytes_def)
  have loop: "buffers_loop R ?fs path
      [JObj [(''uri'', JStr bin_name), (''byteLength'', JInt (int (length (buffer st))))]] []
      = Inr []"
    using ne ex by (simp add: py_get_def py_truthy_def)
  show ?thesis
    unfolding validate_mesh_def
    by (simp only: rd ld sum.case option.case position_count_document buffers_document
        py_iter_def json.case loop)
qed

section \<open>glTF: what is exported is what is validated\<close>

text \<open>
  A triangle, and a runtime whose JSON codec knows the triangle's document, to run
  the exporter and the validator on.
\<close>

definition tri_vs :: "real Vec3 list" where
  "tri_vs = [(0, 0, 0), (1, 0, 0), (0, 1, 0)]"

definition tri_path :: py_path where
  "tri_path = \<lparr> is_abs = False, parts = [''meshes'', ''tri.gltf''] \<rparr>"

definition tri_document :: "real json" where
  "tri_document =
     (case gltf_streams exact_ops tri_vs [0, 1, 2] of
        Inl e \<Rightarrow> JNull
      | Inr (st, accessors) \<Rightarrow> gltf_document ''Tri'' ''tri.bin'' st accessors)"

definition tri_runtime :: "real runtime" where
  "tri_runtime = demo_runtime\<lparr>
     json_dumps := (\<lambda>doc. if doc = tri_document then [123, 125] else []),
     json_loads := (\<lambda>data. if data = [123, 125] then Some tri_document else None) \<rparr>"

text \<open>
  Claim C2, amended: for a mesh with a non-empty vertex list and a non-empty index list
  whose length is a multiple of 3 and whose indices are at least 0, below the vertex
  count and at most 65535, whose positions, normals and UVs fit float32, and for a
  path with a file name whose companion \<open>.bin\<close> path is another path, \<open>write_gltf\<close>
  writes a file on which \<open>validate_mesh\<close> returns the length of the vertex list and no
  error, and the companion buffer file exists and is not empty.  The float guards and
  the round trip of the JSON codec on the written document are hypotheses on the
  runtime.
\<close>

theorem gltf_round_trip:
  assumes "mesh_exportable vs ixs"
    and "guards_exclude_zero (rt_float R)"
    and "floats_packable (rt_float R) vs ixs"
    and "path_with_name path (path_stem path @ ''.bin'') = Inr bin_path"
    and "bin_path \<noteq> path"
    and "\<forall>st accessors. gltf_streams (rt_float R) vs ixs = Inr (st, accessors)
           \<longrightarrow> json_round_trips R
                 (gltf_document mesh_name (path_stem path @ ''.bin'') st accessors)"
  shows "\<exists>fs'. write_gltf R fs path mesh_name vs ixs = Inr fs'
           \<and> validate_mesh R fs' path = Inr (int (length vs), [])
           \<and> path_exists fs' bin_path
           \<and> (\<exists>data. fs_files fs' bin_path = Some data \<and> data \<noteq> [])"
proof -
  obtain st accessors pos nrm uv idx rest a1 a2 a3 where
    l: "length pos = 12 * length vs"
    and b: "buffer st = pos @ nrm @ uv @ idx"
    and a: "accessors = [JObj ((''bufferView'', JInt 0) # (''componentType'', JInt 5126)
                   # (''count'', JInt (int (length vs))) # rest), a1, a2, a3]"
    and g: "gltf_streams (rt_float R) vs ixs = Inr (st, accessors)"
    and w: "write_gltf R fs path mesh_name vs ixs =
       Inr (write_bytes (write_bytes fs bin_path (buffer st)) path
             (json_dumps R (gltf_document mesh_name (path_stem path @ ''.bin'') st accessors)))"
    by (rule write_gltf_ok [OF assms(1-4)])
  let ?fs = "write_bytes (write_bytes fs bin_path (buffer st)) path
             (json_dumps R (gltf_document mesh_name (path_stem path @ ''.bin'') st accessors))"
  have rt: "json_round_trips R
        (gltf_document mesh_name (path_stem path @ ''.bin'') st accessors)"
    using assms(6) g by simp
  have v: "validate_mesh R ?fs path = Inr (int (length vs), [])"
    unfolding a
    by (rule validate_written_gltf [OF assms(4)]) (use rt in \<open>simp_all add: a\<close>)
  have f: "fs_files ?fs bin_path = Some (buffer st)"
    using assms(5) by (simp add: write_bytes_def)
  have "vs \<noteq> []" using assms(1) by (simp add: mesh_exportable_def)
  then have ne: "buffer st \<noteq> []" using l b by auto
  have e: "path_exists ?fs bin_path"
    using f by (simp add: path_exists_def)
  show ?thesis
    by (rule exI [of _ ?fs]) (intro conjI w v e exI [of _ "buffer st"] f ne)
qed

lemma guards_exact_ops: "guards_exclude_zero exact_ops"
  by (auto simp add: guards_exclude_zero_def exact_ops_def py_max2_def)

lemma tri_normals:
  "compute_normals exact_ops tri_vs [0, 1, 2] = Inr [(0, 0, 1), (0, 0, 1), (0, 0, 1)]"
  by (simp add: compute_normals_def tri_vs_def py_index_def py_setitem_def Let_def
      cross3_def sub3_def add3_def normalize3_def len3_def py_truediv_def exact_ops_def)

lemma tri_uvs:
  "compute_uvs exact_ops tri_vs = Inr [(1 / 2, 1), (1 / 2, 1), (1 / 2, 0)]"
  by (simp add: compute_uvs_def tri_vs_def py_min_def py_max_def py_min2_def py_max2_def
      uv_of_def py_truediv_def Let_def exact_ops_def)

lemma tri_packable: "floats_packable exact_ops tri_vs [0, 1, 2]"
  unfolding floats_packable_def tri_normals tri_uvs
  by (simp add: tri_vs_def packable_def exact_ops_def)

lemma tri_exportable: "mesh_exportable tri_vs [0, 1, 2]"
  by (simp add: mesh_exportable_def tri_vs_def)

lemma tri_bin:
  "path_with_name tri_path (path_stem tri_path @ ''.bin'')
     = Inr \<lparr> is_abs = False, parts = [''meshes'', ''tri.bin''] \<rparr>"
  by (simp add: path_with_name_def path_stem_def path_name_def tri_path_def path_segments_def)

theorem gltf_round_trip_witness:
  "\<exists>fs'. write_gltf tri_runtime empty_fs tri_path ''Tri'' tri_vs [0, 1, 2] = Inr fs'
         \<and> validate_mesh tri_runtime fs' tri_path = Inr (3, [])
         \<and> path_exists fs' \<lparr> is_abs = False, parts = [''meshes'', ''tri.bin''] \<rparr>
         \<and> (\<exists>data. fs_files fs' \<lparr> is_abs = False, parts = [''meshes'', ''tri.bin''] \<rparr> = Some data
                    \<and> data \<noteq> [])"
proof -
  have f: "rt_float tri_runtime = exact_ops"
    by (simp add: tri_runtime_def demo_runtime_def)
  have stem: "path_stem tri_path = ''tri''"
    by (simp add: path_stem_def path_name_def tri_path_def)
  have rt: "\<forall>st accessors. gltf_streams (rt_float tri_runtime) tri_vs [0, 1, 2] = Inr (st, accessors)
           \<longrightarrow> json_round_trips tri_runtime
                 (gltf_document ''Tri'' (path_stem tri_path @ ''.bin'') st accessors)"
  proof (intro allI impI)
    fix st accessors
    assume "gltf_streams (rt_float tri_runtime) tri_vs [0, 1, 2] = Inr (st, accessors)"
    then have "tri_document = gltf_document ''Tri'' ''tri.bin'' st accessors"
      by (simp add: f tri_document_def)
    then show "json_round_trips tri_runtime
        (gltf_document ''Tri'' (path_stem tri_path @ ''.bin'') st accessors)"
      by (simp add: stem json_round_trips_def tri_runtime_def)
  qed
  have ne: "\<lparr> is_abs = False, parts = [''meshes'', ''tri.bin''] \<rparr> \<noteq> tri_path"
    by (simp add: tri_path_def)
  show ?thesis
    using gltf_round_trip [of tri_vs "[0, 1, 2]" tri_runtime tri_path
        "\<lparr> is_abs = False, parts = [''meshes'', ''tri.bin''] \<rparr>" "''Tri''" empty_fs,
        OF tri_exportable _ _ tri_bin ne rt]
      guards_exact_ops tri_packable
    by (simp add: f tri_vs_def)
qed

text \<open>
  Claim C2, as the spec states it, asks for non-empty lists and 16-bit indices only.
  With one index \<open>compute_normals\<close> reads \<open>indices[1]\<close> and raises IndexError; with a
  coordinate of \<open>2 ^ 128\<close> \<open>struct.pack("<fff", ...)\<close> raises OverflowError.  Neither
  call writes a file.
\<close>

definition above_float32 :: real where
  "above_float32 = 2 ^ 128"

theorem write_gltf_raises:
  "write_gltf demo_runtime empty_fs tri_path ''Tri'' [(0, 0, 0)] [0] = Inl IndexError
   \<and> write_gltf demo_runtime empty_fs tri_path ''Tri'' [(above_float32, 0, 0)] [0, 0, 0]
       = Inl OverflowError"
proof -
  have a: "gltf_streams exact_ops [(0, 0, 0)] [0] = Inl IndexError"
    by (simp add: gltf_streams_def compute_normals_def)
  have n: "compute_normals exact_ops [(above_float32, 0, 0)] [0, 0, 0] = Inr [(0, 1, 0)]"
    by (simp add: compute_normals_def py_index_def py_setitem_def Let_def
      cross3_def sub3_def add3_def normalize3_def len3_def py_truediv_def exact_ops_def)
  have u: "compute_uvs exact_ops [(above_float32, 0, 0)] = Inr [(1 / 2, 1)]"
    by (simp add: compute_uvs_def py_min_def py_max_def py_min2_def py_max2_def
      uv_of_def py_truediv_def Let_def exact_ops_def)
  have p: "join_packed (\<lambda>(a, b, c). pack_f32s exact_ops [a, b, c]) [(above_float32, 0, 0)]
      = Inl OverflowError"
    by (simp add: exact_ops_def above_float32_def)
  have b: "gltf_streams exact_ops [(above_float32, 0, 0)] [0, 0, 0] = Inl OverflowError"
    by (simp only: gltf_streams_def n u p sum.case)
  have f: "rt_float demo_runtime = exact_ops"
    by (simp add: demo_runtime_def)
  show ?thesis
    by (simp add: write_gltf_def f a b)
qed

section \<open>Layout of the binary buffer\<close>








section \<open>The accumulated error list\<close>


definition entity_errors :: "'f runtime \<Rightarrow> py_path filesystem \<Rightarrow> py_path \<Rightarrow> py_path
    \<Rightarrow> ThemeValidationProfile \<Rightarrow> int \<Rightarrow> string \<Rightarrow> verror list" where
  "entity_errors R fs mesh_dir texture_dir profile min_size entity =
     (case mesh_check R fs mesh_dir profile entity of Inl e \<Rightarrow> [] | Inr mesh_errors \<Rightarrow> mesh_errors)
     @ concat (map (texture_check fs texture_dir min_size entity) TEXTURE_CHANNELS)"

lemma entities_loop_result:
  "entities_loop R fs mesh_dir texture_dir profile min_size es errs = Inr out \<Longrightarrow>
     out = errs @ concat (map (entity_errors R fs mesh_dir texture_dir profile min_size) es)
     \<and> (\<forall>e\<in>set es. \<exists>items. mesh_check R fs mesh_dir profile e = Inr items)"
proof (induction es arbitrary: errs)
  case Nil
  then show ?case by simp
next
  case (Cons e es)
  from Cons.prems obtain items where
    m: "mesh_check R fs mesh_dir profile e = Inr items"
    and r: "entities_loop R fs mesh_dir texture_dir profile min_size es
             (errs @ items @ concat (map (texture_check fs texture_dir min_size e) TEXTURE_CHANNELS))
            = Inr out"
    by (auto split: sum.splits)
  from Cons.IH [OF r] show ?case
    by (simp add: m entity_errors_def)
qed

lemma entities_loop_ok:
  "\<forall>e\<in>set es. \<exists>items. mesh_check R fs mesh_dir profile e = Inr items \<Longrightarrow>
   \<exists>out. entities_loop R fs mesh_dir texture_dir profile min_size es errs = Inr out"
proof (induction es arbitrary: errs)
  case Nil
  then show ?case by simp
next
  case (Cons e es)
  then obtain items where m: "mesh_check R fs mesh_dir profile e = Inr items" by auto
  from Cons.IH Cons.prems show ?case by (simp add: m)
qed






section \<open>The agent mesh under both profiles\<close>


definition agent_path :: "py_path \<Rightarrow> ThemeValidationProfile \<Rightarrow> py_path" where
  "agent_path theme_dir profile = mesh_path_of (path_join theme_dir ''meshes'') profile ''agent''"






lemma agent_path_parts:
  assumes "profile = profile_v1 \<or> profile = profile_v2"
  shows "agent_path theme_dir profile =
           theme_dir\<lparr> parts := parts theme_dir
              @ [''meshes'', ''agent_industrial'' @ p_mesh_suffix profile @ ''.gltf''] \<rparr>"
  using assms
  by (auto simp add: agent_path_def mesh_path_of_def path_join_def path_segments_def
      profile_v1_def profile_v2_def)

lemma parts_update_eq: "(p\<lparr> parts := a \<rparr> = p\<lparr> parts := b \<rparr>) = (a = b)"
  by (auto dest: arg_cong [where f = parts])








lemma agent_bin_distinct:
  assumes "profile = profile_v1 \<or> profile = profile_v2"
  shows "theme_dir\<lparr> parts := parts theme_dir
              @ [''meshes'', ''agent_industrial'' @ p_mesh_suffix profile @ ''.bin''] \<rparr>
         \<noteq> agent_path theme_dir profile"
  using assms
  by (auto simp add: agent_path_parts parts_update_eq profile_v1_def profile_v2_def)

lemma profile_min_vertices:
  assumes "profile = profile_v1 \<or> profile = profile_v2" and "e \<in> set ENTITIES"
  shows "\<exists>required. map_of (p_min_vertices profile) e = Some required \<and> 0 < required"
  using assms by (auto simp add: profile_v1_def profile_v2_def ENTITIES_def)

lemma mesh_check_returns:
  assumes prof: "profile = profile_v1 \<or> profile = profile_v2" and e: "e \<in> set ENTITIES"
    and "path_exists fs (mesh_path_of mesh_dir profile e)
         \<longrightarrow> (\<exists>r. validate_mesh R fs (mesh_path_of mesh_dir profile e) = Inr r)"
  shows "\<exists>items. mesh_check R fs mesh_dir profile e = Inr items"
proof (cases "path_exists fs (mesh_path_of mesh_dir profile e)")
  case False
  then show ?thesis by (simp add: mesh_check_def Let_def)
next
  case True
  with assms(3) obtain n errs where
    "validate_mesh R fs (mesh_path_of mesh_dir profile e) = Inr (n, errs)" by auto
  moreover obtain required where "map_of (p_min_vertices profile) e = Some required"
    using profile_min_vertices [OF prof e] by auto
  ultimately show ?thesis
    using True by (simp add: mesh_check_def Let_def)
qed

lemma validate_theme_pack_returns:
  assumes prof: "profile = profile_v1 \<or> profile = profile_v2"
    and "\<forall>e\<in>set ENTITIES.
           path_exists fs (mesh_path_of (path_join theme_dir ''meshes'') profile e)
           \<longrightarrow> (\<exists>r. validate_mesh R fs
                       (mesh_path_of (path_join theme_dir ''meshes'') profile e) = Inr r)"
  shows "\<exists>errors. validate_theme_pack R fs theme_dir profile min_size = Inr errors"
proof -
  have "\<forall>e\<in>set ENTITIES. \<exists>items.
      mesh_check R fs (path_join theme_dir ''meshes'') profile e = Inr items"
  proof (intro ballI)
    fix e assume e: "e \<in> set ENTITIES"
    with assms(2) have "path_exists fs (mesh_path_of (path_join theme_dir ''meshes'') profile e)
        \<longrightarrow> (\<exists>r. validate_mesh R fs
                    (mesh_path_of (path_join theme_dir ''meshes'') profile e) = Inr r)"
      by (rule bspec)
    then show "\<exists>items. mesh_check R fs (path_join theme_dir ''meshes'') profile e = Inr items"
      by (rule mesh_check_returns [OF prof e])
  qed
  from entities_loop_ok [OF this] show ?thesis
    unfolding validate_theme_pack_def Let_def by meson
qed












section \<open>A mesh file that makes the validator raise\<close>

definition bad_buffers_gltf :: "'f json" where
  "bad_buffers_gltf =
     JObj [
       (''meshes'', JArr [JObj [(''primitives'', JArr [JObj [
           (''attributes'', JObj [(''POSITION'', JInt 0)])]])]]),
       (''accessors'', JArr [JObj [(''count'', JInt 100)]]),
       (''buffers'', JArr [JInt 5])]"

lemma validate_mesh_bad_buffers:
  assumes "fs_files fs path = Some data" and "json_loads R data = Some bad_buffers_gltf"
  shows "validate_mesh R fs path = Inl AttributeError"
proof -
  have c: "position_count R bad_buffers_gltf = Inr 100"
    by (simp add: position_count_def bad_buffers_gltf_def py_subscript_def py_index_def
        py_index_key_def py_int_def Let_def)
  have b: "py_get bad_buffers_gltf ''buffers'' (JArr []) = Inr (JArr [JInt 5])"
    by (simp add: py_get_def bad_buffers_gltf_def)
  have l: "buffers_loop R fs path [JInt 5] [] = Inl AttributeError"
    by (simp add: py_get_def)
  show ?thesis
    unfolding validate_mesh_def
    by (simp only: read_bytes_def assms option.case sum.case c b py_iter_def json.case l)
qed

lemma validate_theme_pack_bad_buffers:
  assumes "fs_files fs (mesh_path_of (path_join theme_dir ''meshes'') profile ''agent'') = Some data"
    and "json_loads R data = Some bad_buffers_gltf"
  shows "validate_theme_pack R fs theme_dir profile min_size = Inl AttributeError"
proof -
  have "path_exists fs (mesh_path_of (path_join theme_dir ''meshes'') profile ''agent'')"
    using assms(1) by (simp add: path_exists_def)
  then have "mesh_check R fs (path_join theme_dir ''meshes'') profile ''agent''
      = Inl AttributeError"
    by (simp add: mesh_check_def Let_def validate_mesh_bad_buffers [OF assms])
  then show ?thesis
    by (simp add: validate_theme_pack_def Let_def ENTITIES_def)
qed

lemma main_bad_buffers:
  assumes "map_of PROFILES arg_profile = Some profile"
    and "fs_files fs (mesh_path_of (path_join (path_of_string arg_theme_dir) ''meshes'')
           profile ''agent'') = Some data"
    and "json_loads R data = Some bad_buffers_gltf"
  shows "main R fs arg_theme_dir arg_profile arg_min_texture_size = Inl AttributeError"
  by (simp add: main_def assms(1) Let_def validate_theme_pack_bad_buffers [OF assms(2,3)])

lemma main_exit_code:
  assumes "map_of PROFILES arg_profile = Some profile"
    and "validate_theme_pack R fs (path_of_string arg_theme_dir) profile
           (if arg_min_texture_size > 0 then arg_min_texture_size
            else p_min_texture_size profile) = Inr errors"
  shows "\<exists>lines. main R fs arg_theme_dir arg_profile arg_min_texture_size
             = Inr (if errors = [] then 0 else 1, lines)
           \<and> (errors \<noteq> [] \<longrightarrow> lines = FailedHeader # map ErrorLine errors)"
  using assms by (simp add: main_def Let_def)

text \<open>
  The bytes of the text
  \<^verbatim>\<open>{"meshes":[{"primitives":[{"attributes":{"POSITION":0}}]}],"accessors":[{"count":100}],"buffers":[5]}\<close>,
  a runtime whose JSON codec reads them as \<open>bad_buffers_gltf\<close>, and a theme directory
  whose only file is the agent mesh of profile v1 with these bytes.
\<close>

definition bad_mesh_bytes :: "byte list" where
  "bad_mesh_bytes =
     [123, 34, 109, 101, 115, 104, 101, 115, 34, 58, 91, 123, 34, 112, 114, 105,
      109, 105, 116, 105, 118, 101, 115, 34, 58, 91, 123, 34, 97, 116, 116, 114,
      105, 98, 117, 116, 101, 115, 34, 58, 123, 34, 80, 79, 83, 73, 84, 73,
      79, 78, 34, 58, 48, 125, 125, 93, 125, 93, 44, 34, 97, 99, 99, 101,
      115, 115, 111, 114, 115, 34, 58, 91, 123, 34, 99, 111, 117, 110, 116, 34,
      58, 49, 48, 48, 125, 93, 44, 34, 98, 117, 102, 102, 101, 114, 115, 34,
      58, 91, 53, 93, 125]"

definition bad_runtime :: "real runtime" where
  "bad_runtime = demo_runtime\<lparr>
     json_loads := (\<lambda>data. if data = bad_mesh_bytes then Some bad_buffers_gltf else None) \<rparr>"

definition bad_theme :: "py_path filesystem" where
  "bad_theme =
     write_bytes empty_fs
       (mesh_path_of (path_join (path_of_string ''theme'') ''meshes'') profile_v1 ''agent'')
       bad_mesh_bytes"

text \<open>
  Claim C8 says that \<open>validate_theme_pack\<close> never fails fast and that the CLI prints the
  accumulated list and exits with 1 on any failure.  On this theme directory the loop
  over the buffers of \<open>validate_mesh\<close>, which no \<open>try\<close> block guards, calls \<open>.get\<close> on the
  integer 5: AttributeError leaves \<open>validate_mesh\<close>, \<open>validate_theme_pack\<close> and \<open>main\<close>,
  and no list is returned or printed, although the directories, presets, textures and
  the four other meshes are missing too.
\<close>

theorem validator_raises_on_bad_buffers:
  "validate_theme_pack bad_runtime bad_theme (path_of_string ''theme'') profile_v1 256
     = Inl AttributeError
   \<and> main bad_runtime bad_theme ''theme'' ''v1'' 0 = Inl AttributeError"
proof -
  have p: "map_of PROFILES ''v1'' = Some profile_v1"
    by (simp add: PROFILES_def)
  have f: "fs_files bad_theme
      (mesh_path_of (path_join (path_of_string ''theme'') ''meshes'') profile_v1 ''agent'')
      = Some bad_mesh_bytes"
    by (simp add: bad_theme_def write_bytes_def)
  have l: "json_loads bad_runtime bad_mesh_bytes = Some bad_buffers_gltf"
    by (simp add: bad_runtime_def)
  show ?thesis
    by (intro conjI validate_theme_pack_bad_buffers [OF f l] main_bad_buffers [OF p f l])
qed

section \<open>A mesh file that does not parse\<close>

lemma validate_mesh_unparsable:
  assumes "(case read_bytes fs path of Inl e \<Rightarrow> None | Inr data \<Rightarrow> json_loads R data) = None"
  shows "validate_mesh R fs path = Inr (0, [GltfParseFailed path])"
  using assms by (simp add: validate_mesh_def)

lemma validate_mesh_no_position:
  assumes "(case read_bytes fs path of Inl e \<Rightarrow> None | Inr data \<Rightarrow> json_loads R data) = Some gltf"
    and "position_count R gltf = Inl exc"
  shows "validate_mesh R fs path = Inr (0, [MissingPosition path exc])"
  using assms by (simp add: validate_mesh_def)

lemma mesh_check_zero_vertices:
  assumes "path_exists fs (mesh_path_of mesh_dir profile entity)"
    and "validate_mesh R fs (mesh_path_of mesh_dir profile entity) = Inr (0, [err])"
    and "map_of (p_min_vertices profile) entity = Some required" and "0 < required"
  shows "mesh_check R fs mesh_dir profile entity
           = Inr [err, VertexBudget (mesh_path_of mesh_dir profile entity) 0 required]"
  using assms by (simp add: mesh_check_def Let_def)

lemma entity_errors_in_result:
  assumes ret: "validate_theme_pack R fs theme_dir profile min_size = Inr errors"
    and e: "e \<in> set ENTITIES"
    and m: "mesh_check R fs (path_join theme_dir ''meshes'') profile e = Inr items"
  shows "\<exists>pre post. errors = pre @ items @ post"
proof -
  let ?f = "entity_errors R fs (path_join theme_dir ''meshes'')
              (path_join theme_dir ''textures'') profile min_size"
  from ret obtain init where
    loop: "entities_loop R fs (path_join theme_dir ''meshes'') (path_join theme_dir ''textures'')
             profile min_size ENTITIES init = Inr errors"
    unfolding validate_theme_pack_def Let_def by meson
  from entities_loop_result [OF loop]
  have res: "errors = init @ concat (map ?f ENTITIES)"
    by (rule conjunct1)
  from e obtain xs ys where s: "ENTITIES = xs @ e # ys"
    by (auto dest: split_list)
  have fe: "?f e = items
      @ concat (map (texture_check fs (path_join theme_dir ''textures'') min_size e)
                  TEXTURE_CHANNELS)"
    by (simp add: entity_errors_def m)
  have "errors = (init @ concat (map ?f xs)) @ items
      @ (concat (map (texture_check fs (path_join theme_dir ''textures'') min_size e)
                  TEXTURE_CHANNELS)
         @ concat (map ?f ys))"
    unfolding res s by (simp add: fe)
  then show ?thesis by blast
qed

text \<open>
  Claim C10: an entity's mesh file exists, and either reading and parsing it raises or
  the lookup of the POSITION accessor's count raises.  Then \<open>validate_mesh\<close> returns the
  vertex count 0 with one error, the parse error or the format error; what the profile
  requires for the entity is positive; and whenever \<open>validate_theme_pack\<close> returns, its
  list holds that error and, right after it, the vertex budget violation
  \<open>0 < required\<close> of the same file.  It does return when \<open>validate_mesh\<close> returns on
  every mesh file that exists.
\<close>

theorem unparsable_mesh_two_errors:
  assumes prof: "profile = profile_v1 \<or> profile = profile_v2"
    and e: "entity \<in> set ENTITIES"
    and mp: "mesh_path = mesh_path_of (path_join theme_dir ''meshes'') profile entity"
    and ex: "path_exists fs mesh_path"
    and ld: "loaded = (case read_bytes fs mesh_path of
                         Inl e \<Rightarrow> None | Inr data \<Rightarrow> json_loads R data)"
    and bad: "loaded = None \<or> (\<exists>gltf exc. loaded = Some gltf \<and> position_count R gltf = Inl exc)"
  shows "\<exists>err required.
           validate_mesh R fs mesh_path = Inr (0, [err])
         \<and> (loaded = None \<longrightarrow> err = GltfParseFailed mesh_path)
         \<and> (\<forall>gltf exc. loaded = Some gltf \<and> position_count R gltf = Inl exc
               \<longrightarrow> err = MissingPosition mesh_path exc)
         \<and> map_of (p_min_vertices profile) entity = Some required \<and> 0 < required
         \<and> (\<forall>min_size errors.
               validate_theme_pack R fs theme_dir profile min_size = Inr errors \<longrightarrow>
               (\<exists>pre post. errors = pre @ [err, VertexBudget mesh_path 0 required] @ post))
         \<and> ((\<forall>e\<in>set ENTITIES.
                path_exists fs (mesh_path_of (path_join theme_dir ''meshes'') profile e)
                \<longrightarrow> (\<exists>r. validate_mesh R fs
                            (mesh_path_of (path_join theme_dir ''meshes'') profile e) = Inr r))
             \<longrightarrow> (\<forall>min_size. \<exists>errors.
                    validate_theme_pack R fs theme_dir profile min_size = Inr errors))"
proof -
  obtain err where v: "validate_mesh R fs mesh_path = Inr (0, [err])"
    and k1: "loaded = None \<longrightarrow> err = GltfParseFailed mesh_path"
    and k2: "\<forall>gltf exc. loaded = Some gltf \<and> position_count R gltf = Inl exc
               \<longrightarrow> err = MissingPosition mesh_path exc"
  proof (cases loaded)
    case None
    with ld have "validate_mesh R fs mesh_path = Inr (0, [GltfParseFailed mesh_path])"
      by (intro validate_mesh_unparsable) simp
    with None that show ?thesis by simp
  next
    case (Some gltf)
    with bad obtain exc where p: "position_count R gltf = Inl exc" by auto
    from Some ld have "(case read_bytes fs mesh_path of
        Inl e \<Rightarrow> None | Inr data \<Rightarrow> json_loads R data) = Some gltf" by simp
    from validate_mesh_no_position [OF this p]
    have "validate_mesh R fs mesh_path = Inr (0, [MissingPosition mesh_path exc])" .
    with Some p that show ?thesis by simp
  qed
  obtain required where r: "map_of (p_min_vertices profile) entity = Some required"
    and pos: "0 < required"
    using profile_min_vertices [OF prof e] by auto
  have m: "mesh_check R fs (path_join theme_dir ''meshes'') profile entity
      = Inr [err, VertexBudget mesh_path 0 required]"
    unfolding mp
    by (rule mesh_check_zero_vertices [OF ex [unfolded mp] v [unfolded mp] r pos])
  have incl: "\<forall>min_size errors.
      validate_theme_pack R fs theme_dir profile min_size = Inr errors \<longrightarrow>
      (\<exists>pre post. errors = pre @ [err, VertexBudget mesh_path 0 required] @ post)"
  proof (intro allI impI)
    fix min_size errors
    assume ret: "validate_theme_pack R fs theme_dir profile min_size = Inr errors"
    show "\<exists>pre post. errors = pre @ [err, VertexBudget mesh_path 0 required] @ post"
      by (rule entity_errors_in_result [OF ret e m])
  qed
  have tot: "(\<forall>e\<in>set ENTITIES.
                path_exists fs (mesh_path_of (path_join theme_dir ''meshes'') profile e)
                \<longrightarrow> (\<exists>r. validate_mesh R fs
                            (mesh_path_of (path_join theme_dir ''meshes'') profile e) = Inr r))
             \<longrightarrow> (\<forall>min_size. \<exists>errors.
                    validate_theme_pack R fs theme_dir profile min_size = Inr errors)"
    using validate_theme_pack_returns [OF prof] by blast
  show ?thesis
    by (intro exI [of _ err] exI [of _ required] conjI v k1 k2 r pos incl tot)
qed

text \<open>
  A theme directory whose only file is the agent mesh of profile v1, empty, so that
  \<open>json.loads\<close> raises on it.
\<close>

definition empty_mesh_theme :: "py_path filesystem" where
  "empty_mesh_theme =
     write_bytes empty_fs
       (mesh_path_of (path_join (path_of_string ''theme'') ''meshes'') profile_v1 ''agent'') []"

theorem unparsable_mesh_two_errors_witness:
  "validate_mesh demo_runtime empty_mesh_theme
      (mesh_path_of (path_join (path_of_string ''theme'') ''meshes'') profile_v1 ''agent'')
     = Inr (0, [GltfParseFailed
          (mesh_path_of (path_join (path_of_string ''theme'') ''meshes'') profile_v1 ''agent'')])
   \<and> (\<exists>pre post.
        validate_theme_pack demo_runtime empty_mesh_theme (path_of_string ''theme'') profile_v1 256
        = Inr (pre
           @ [GltfParseFailed
                (mesh_path_of (path_join (path_of_string ''theme'') ''meshes'') profile_v1
                   ''agent''),
              VertexBudget
                (mesh_path_of (path_join (path_of_string ''theme'') ''meshes'') profile_v1
                   ''agent'') 0 18]
           @ post))"
proof -
  let ?p = "mesh_path_of (path_join (path_of_string ''theme'') ''meshes'') profile_v1 ''agent''"
  have ex: "path_exists empty_mesh_theme ?p"
    by (simp add: empty_mesh_theme_def write_bytes_def path_exists_def)
  have ld: "(case read_bytes empty_mesh_theme ?p of
               Inl e \<Rightarrow> None | Inr data \<Rightarrow> json_loads demo_runtime data) = None"
    by (simp add: demo_runtime_def split: sum.splits)
  have e: "''agent'' \<in> set ENTITIES"
    by (simp add: ENTITIES_def)
  have all: "\<forall>e\<in>set ENTITIES.
      path_exists empty_mesh_theme
        (mesh_path_of (path_join (path_of_string ''theme'') ''meshes'') profile_v1 e)
      \<longrightarrow> (\<exists>r. validate_mesh demo_runtime empty_mesh_theme
                  (mesh_path_of (path_join (path_of_string ''theme'') ''meshes'') profile_v1 e)
                = Inr r)"
    by (simp add: validate_mesh_def demo_runtime_def split: sum.splits)
  from unparsable_mesh_two_errors [of profile_v1 "''agent''" ?p "path_of_string ''theme''"
      empty_mesh_theme None demo_runtime, OF _ e refl ex ld [symmetric]]
  obtain err required where
    v: "validate_mesh demo_runtime empty_mesh_theme ?p = Inr (0, [err])"
    and k: "err = GltfParseFailed ?p"
    and r: "map_of (p_min_vertices profile_v1) ''agent'' = Some required"
    and incl: "\<forall>min_size errors.
        validate_theme_pack demo_runtime empty_mesh_theme (path_of_string ''theme'') profile_v1
          min_size = Inr errors \<longrightarrow>
        (\<exists>pre post. errors = pre @ [err, VertexBudget ?p 0 required] @ post)"
    and tot: "\<forall>min_size. \<exists>errors.
        validate_theme_pack demo_runtime empty_mesh_theme (path_of_string ''theme'') profile_v1
          min_size = Inr errors"
    using all by auto
  from r have q: "required = 18"
    by (simp add: profile_v1_def)
  from tot obtain errors where
    ret: "validate_theme_pack demo_runtime empty_mesh_theme (path_of_string ''theme'') profile_v1
            256 = Inr errors"
    by blast
  with incl obtain pre post where
    "errors = pre @ [err, VertexBudget ?p 0 required] @ post" by blast
  with ret k q v show ?thesis by auto
qed

end
